theory Spec2Isabelle
  imports Complex_Main "HOL-Library.Word"
begin

section \<open>Python string operations used by the bot\<close>

text \<open>
  Strings are modelled as \<open>string\<close> (a list of 8-bit characters), so the text the bot
  handles is taken to be ASCII. Each operation below is the Python built-in of the same
  name restricted to such strings.
\<close>

definition is_space :: "char \<Rightarrow> bool" where
  \<comment> \<open>the ASCII characters for which \<open>str.isspace\<close> holds\<close>
  "is_space c = (let n = (of_char c :: nat) in (9 \<le> n \<and> n \<le> 13) \<or> (28 \<le> n \<and> n \<le> 32))"

definition strip :: "string \<Rightarrow> string" where
  \<comment> \<open>\<open>s.strip()\<close>\<close>
  "strip s = rev (dropWhile is_space (rev (dropWhile is_space s)))"

definition lower_char :: "char \<Rightarrow> char" where
  \<comment> \<open>an upper-case ASCII letter becomes lower-case by setting the bit of value 32\<close>
  "lower_char c =
     (case c of
        Char b0 b1 b2 b3 b4 b5 b6 b7 \<Rightarrow>
          (let n = (of_char c :: nat)
           in if 65 \<le> n \<and> n \<le> 90 then Char b0 b1 b2 b3 b4 True b6 b7 else c))"

definition lower :: "string \<Rightarrow> string" where
  \<comment> \<open>\<open>s.lower()\<close>\<close>
  "lower s = map lower_char s"

definition replace_char :: "char \<Rightarrow> char \<Rightarrow> string \<Rightarrow> string" where
  \<comment> \<open>\<open>s.replace(a, b)\<close> for one-character strings \<open>a\<close> and \<open>b\<close>\<close>
  "replace_char a b s = map (\<lambda>c. if c = a then b else c) s"

fun split_on :: "char \<Rightarrow> string \<Rightarrow> string list" where
  \<comment> \<open>\<open>s.split(sep)\<close> for a one-character separator: every occurrence splits\<close>
  "split_on sep [] = [[]]"
| "split_on sep (c # cs) =
     (if c = sep then [] # split_on sep cs
      else (case split_on sep cs of
              [] \<Rightarrow> [[c]]
            | w # ws \<Rightarrow> (c # w) # ws))"

definition split_first :: "char \<Rightarrow> string \<Rightarrow> string list" where
  \<comment> \<open>\<open>s.split(sep, 1)\<close>: only the first occurrence splits\<close>
  "split_first sep s =
     (if sep \<in> set s
      then [takeWhile (\<lambda>c. c \<noteq> sep) s, tl (dropWhile (\<lambda>c. c \<noteq> sep) s)]
      else [s])"

definition startswith :: "string \<Rightarrow> string \<Rightarrow> bool" where
  "startswith s p = (take (length p) s = p)"

fun join_space :: "string list \<Rightarrow> string" where
  \<comment> \<open>\<open>" ".join(xs)\<close>\<close>
  "join_space [] = []"
| "join_space [x] = x"
| "join_space (x # y # ys) = x @ '' '' @ join_space (y # ys)"

datatype exn =
    IndexError | KeyError | UnboundLocalError | ValueError | AttributeError | OverflowError
  | BadRequest | Forbidden | NetworkError

definition index :: "'a list \<Rightarrow> nat \<Rightarrow> exn + 'a" where
  \<comment> \<open>\<open>xs[i]\<close> for a non-negative index\<close>
  "index xs i = (if i < length xs then Inr (xs ! i) else Inl IndexError)"

subsection \<open>Parsing numbers: \<open>int(s)\<close> and \<open>float(s)\<close>\<close>

definition digit_of :: "char \<Rightarrow> nat option" where
  "digit_of c = (let n = (of_char c :: nat) in if 48 \<le> n \<and> n \<le> 57 then Some (n - 48) else None)"

text \<open>
  \<open>more_digits v n s\<close> reads the rest of a digit part (digits, each optionally preceded
  by one underscore) and returns the value read, the number of digits and the unread
  suffix.
\<close>

fun more_digits :: "nat \<Rightarrow> nat \<Rightarrow> string \<Rightarrow> nat \<times> nat \<times> string" where
  "more_digits v n [] = (v, n, [])"
| "more_digits v n [c] =
     (case digit_of c of Some d \<Rightarrow> (10 * v + d, Suc n, []) | None \<Rightarrow> (v, n, [c]))"
| "more_digits v n (c # c' # cs) =
     (case digit_of c of
        Some d \<Rightarrow> more_digits (10 * v + d) (Suc n) (c' # cs)
      | None \<Rightarrow>
          (if c = CHR ''_''
           then (case digit_of c' of
                   Some d \<Rightarrow> more_digits (10 * v + d) (Suc n) cs
                 | None \<Rightarrow> (v, n, c # c' # cs))
           else (v, n, c # c' # cs)))"

definition digitpart :: "string \<Rightarrow> (nat \<times> nat \<times> string) option" where
  "digitpart s =
     (case s of
        [] \<Rightarrow> None
      | c # cs \<Rightarrow> (case digit_of c of None \<Rightarrow> None | Some d \<Rightarrow> Some (more_digits d 1 cs)))"

definition sign_split :: "string \<Rightarrow> bool \<times> string" where
  \<comment> \<open>an optional sign: whether it is a minus, and what follows it\<close>
  "sign_split s =
     (case s of
        [] \<Rightarrow> (False, [])
      | c # cs \<Rightarrow>
          if c = CHR ''-'' then (True, cs)
          else if c = CHR ''+'' then (False, cs)
          else (False, s))"

definition py_int :: "string \<Rightarrow> int option" where
  \<comment> \<open>\<open>int(s)\<close>; \<open>None\<close> is \<open>ValueError\<close>\<close>
  "py_int s =
     (case sign_split (strip s) of
        (neg, u) \<Rightarrow>
          (case digitpart u of
             Some (v, n, []) \<Rightarrow> Some (if neg then - int v else int v)
           | _ \<Rightarrow> None))"

datatype pyfloat = Finite rat | PosInf | NegInf | NaN

text \<open>
  A finite float is modelled by the exact rational value of the decimal literal; the
  rounding to binary64 is not modelled.
\<close>

definition scale10 :: "nat \<Rightarrow> int \<Rightarrow> rat" where
  "scale10 m e = (if 0 \<le> e then of_nat m * 10 ^ nat e else of_nat m / 10 ^ nat (- e))"

definition exponent_part :: "string \<Rightarrow> (int \<times> string) option" where
  \<comment> \<open>an optional exponent; \<open>None\<close> when an exponent mark is followed by no digits\<close>
  "exponent_part s =
     (case s of
        [] \<Rightarrow> Some (0, [])
      | c # r \<Rightarrow>
          if c = CHR ''e'' \<or> c = CHR ''E''
          then (case sign_split r of
                  (neg, u) \<Rightarrow>
                    (case digitpart u of
                       None \<Rightarrow> None
                     | Some (v, n, rest) \<Rightarrow> Some (if neg then - int v else int v, rest)))
          else Some (0, s))"

definition finish_number :: "nat \<Rightarrow> nat \<Rightarrow> string \<Rightarrow> rat option" where
  \<comment> \<open>mantissa \<open>m\<close> with \<open>k\<close> fraction digits, then the exponent and the end of input\<close>
  "finish_number m k rest =
     (case exponent_part rest of
        Some (e, []) \<Rightarrow> Some (scale10 m (e - int k))
      | _ \<Rightarrow> None)"

definition floatnumber :: "string \<Rightarrow> rat option" where
  "floatnumber s =
     (case s of
        [] \<Rightarrow> None
      | c # r \<Rightarrow>
          if c = CHR ''.''
          then (case digitpart r of
                  None \<Rightarrow> None
                | Some (f, k, rest) \<Rightarrow> finish_number f k rest)
          else (case digitpart s of
                  None \<Rightarrow> None
                | Some (i, n, rest) \<Rightarrow>
                    (case rest of
                       [] \<Rightarrow> finish_number i 0 []
                     | d # r' \<Rightarrow>
                         if d = CHR ''.''
                         then (case digitpart r' of
                                 None \<Rightarrow> finish_number i 0 r'
                               | Some (f, k, rest') \<Rightarrow> finish_number (i * 10 ^ k + f) k rest')
                         else finish_number i 0 rest)))"

definition py_float :: "string \<Rightarrow> pyfloat option" where
  \<comment> \<open>\<open>float(s)\<close>; \<open>None\<close> is \<open>ValueError\<close>\<close>
  "py_float s =
     (case sign_split (strip s) of
        (neg, u) \<Rightarrow>
          if lower u = ''inf'' \<or> lower u = ''infinity'' then Some (if neg then NegInf else PosInf)
          else if lower u = ''nan'' then Some NaN
          else (case floatnumber u of
                  None \<Rightarrow> None
                | Some r \<Rightarrow> Some (Finite (if neg then - r else r))))"

section \<open>The store\<close>

text \<open>
  The SQLite database \<open>premium_bot.db\<close>. A table is the list of its rows in rowid
  order; the \<open>AUTOINCREMENT\<close> id of a row is its position and is never read by the
  bot. A \<open>datetime\<close> is an integer number of microseconds; the ISO text stored in the
  date columns is represented by that number. The \<open>users\<close> table is written only by
  \<open>/start\<close>.
\<close>

type_synonym time = int

definition timedelta_days :: "int \<Rightarrow> int" where
  "timedelta_days n = n * 86400000000"

definition sqlite_integer :: "int \<Rightarrow> bool" where
  \<comment> \<open>whether \<open>sqlite3\<close> can bind the Python \<open>int\<close> as an \<open>INTEGER\<close>: it fits 64 bits;
      binding any other raises \<open>OverflowError\<close>\<close>
  "sqlite_integer n = (- (2 ^ 63) \<le> n \<and> n < 2 ^ 63)"

record user_row =
  u_user_id :: int
  u_username :: "string option"
  u_first_name :: string
  u_join_date :: time
  u_is_active :: bool

record channel_row =
  c_channel_key :: string
  c_channel_name :: string
  c_channel_id :: int  \<comment> \<open>stored as \<open>str(channel_id)\<close>, read back with \<open>int(...)\<close>\<close>
  c_price :: pyfloat
  c_demo_link :: string
  c_invite_link :: string
  c_is_active :: bool
  c_created_date :: time
  c_created_by :: int

record subscription_row =
  s_user_id :: int
  s_channel_key :: string
  s_start_date :: time
  s_end_date :: time
  s_is_active :: bool
  s_payment_confirmed :: bool
  s_invoice_sent :: bool

datatype pay_status = Pending | Submitted | Approved | Rejected

record pending_row =
  p_user_id :: int
  p_channel_key :: string
  p_amount :: pyfloat
  p_payment_proof :: "string option"
  p_timestamp :: time
  p_status :: pay_status

record server_plan_row =
  sp_plan_name :: string
  sp_price :: pyfloat
  sp_included_channels :: string
  sp_is_active :: bool
  sp_created_date :: time

record database =
  users :: "user_row list"
  channels :: "channel_row list"
  subscriptions :: "subscription_row list"
  pending_payments :: "pending_row list"
  server_plans :: "server_plan_row list"

definition empty_database :: database where
  "empty_database =
     \<lparr>users = [], channels = [], subscriptions = [], pending_payments = [], server_plans = []\<rparr>"

definition setup_database :: "time \<Rightarrow> database \<Rightarrow> database" where
  \<comment> \<open>the tables exist already in the model; each start adds a default server plan row\<close>
  "setup_database now d =
     d\<lparr>server_plans := server_plans d @
        [\<lparr>sp_plan_name = ''Server Premium'', sp_price = Finite 599,
          sp_included_channels = ''[]'', sp_is_active = True, sp_created_date = now\<rparr>]\<rparr>"

definition active_server_plan :: "database \<Rightarrow> server_plan_row option" where
  \<comment> \<open>\<open>SELECT * FROM server_plans WHERE is_active = 1 LIMIT 1\<close>\<close>
  "active_server_plan d = find sp_is_active (server_plans d)"

subsection \<open>The channel dictionary\<close>

record channel_info =
  i_name :: string
  i_channel_id :: int
  i_price :: pyfloat
  i_demo_link :: string
  i_invite_link :: string

text \<open>
  A Python \<open>dict\<close> keeps its keys in the order of their first insertion; assigning to a
  key that is present replaces the value in place.
\<close>

fun dict_set :: "('k \<times> 'v) list \<Rightarrow> 'k \<Rightarrow> 'v \<Rightarrow> ('k \<times> 'v) list" where
  "dict_set [] k v = [(k, v)]"
| "dict_set ((k', v') # d) k v =
     (if k' = k then (k, v) # d else (k', v') # dict_set d k v)"

definition info_of :: "channel_row \<Rightarrow> channel_info" where
  "info_of ch =
     \<lparr>i_name = c_channel_name ch, i_channel_id = c_channel_id ch, i_price = c_price ch,
      i_demo_link = c_demo_link ch, i_invite_link = c_invite_link ch\<rparr>"

definition get_channels_from_db :: "database \<Rightarrow> (string \<times> channel_info) list" where
  "get_channels_from_db d =
     foldl (\<lambda>channel_dict ch. dict_set channel_dict (c_channel_key ch) (info_of ch))
       [] (filter c_is_active (channels d))"

section \<open>The chat transport and the environment\<close>

text \<open>
  The wording of the bot's messages is fixed text with values interpolated; a message is
  represented by its template and those values. A keyboard is the rows of its buttons,
  each with the callback payload or URL it carries.
\<close>

datatype label =
    ChannelLabel string pyfloat | ServerLabel string pyfloat | BackToMainMenu
  | PurchaseLabel string | ViewDemo | BackToPlans | ViewPlans

datatype target = CallbackData string | Url string

datatype button = InlineKeyboardButton label target

type_synonym keyboard = "button list list"

datatype plan_line =
    ChannelLine string pyfloat "string option"  \<comment> \<open>name, price, demo link when there is one\<close>
  | ServerLine string pyfloat

datatype msg =
    NotAuthorized
  | AddChannelStep1
  | AddChannelStep2 string
  | AddChannelStep3 pyfloat
  | InvalidPriceNumber
  | AddChannelStep4
  | ForwardFromChannelRequired
  | BotMustBeAdmin
  | ChannelNotAccessible
  | InviteLinkFailed string
  | ChannelAdded string int pyfloat string
  | ChannelKeyExists string
  | ChannelAdditionCancelled
  | NoPlansAvailable
  | PlansText "plan_line list"
  | PlanNoLongerAvailable
  | ServerPlanNotAvailable
  | ServerPlanDetails string pyfloat
  | ChannelPlanDetails string pyfloat
  | PurchaseText string pyfloat
  | ProofSubmitted
  | InvalidPlan
  | AdminNewSubmission string int "string option" string pyfloat time string
  | InvoiceServer string pyfloat time "(string \<times> string) list"
  | InvoiceChannel string pyfloat time string
  | UsageApprove
  | ServerPlanNotFound
  | ChannelNotFound
  | PaymentApproved int string pyfloat time
  | ErrorApproving exn
  | UsageReject
  | RejectNotice string
  | PaymentRejected int
  | ErrorRejecting exn
  | MainMenu

datatype log =
    FailedToNotifyAdmin int
  | FailedToSendInvoice int
  | FailedToAddUserTo string
  | FailedToAddUserToChannel
  | FailedToNotifyUser

text \<open>
  An event is a call the handler makes to the gateway, the provider or the logger, in the
  order of the calls. A provider call that raises is recorded like one that does not;
  what the handler does about the exception follows it. The calls that can raise in the
  model are the ones the source guards with a \<open>try\<close> of their own
  (\<open>unban_chat_member\<close>, \<open>send_message\<close>, \<open>send_photo\<close>, \<open>get_chat_member\<close>,
  \<open>create_chat_invite_link\<close>); \<open>reply_text\<close> and \<open>edit_message_text\<close> are taken to
  return.
\<close>

datatype event =
    Reply msg
  | ReplyMarkup msg keyboard
  | EditMessage msg
  | EditMarkup msg keyboard
  | SendMessage int msg
  | SendPhoto int string msg
  | UnbanChatMember int int
  | CreateChatInviteLink int
  | LogError log

datatype member_status = OWNER | ADMINISTRATOR | MEMBER | RESTRICTED | LEFT | BANNED

text \<open>
  What a handler run reads from outside the program: the configured administrators, the
  successive values of \<open>datetime.now()\<close> (\<open>clock k\<close> is the value of the call number
  \<open>k\<close> of the run, counted from 0), and how each provider call ends.
\<close>

record env =
  ADMIN_IDS :: "int list"
  clock :: "nat \<Rightarrow> time"
  unban_raises :: "int \<Rightarrow> int \<Rightarrow> bool"
  send_message_raises :: "int \<Rightarrow> bool"
  send_photo_raises :: "int \<Rightarrow> bool"
  get_chat_member :: "int \<Rightarrow> exn + member_status"
  create_chat_invite_link :: "int \<Rightarrow> string + string"

text \<open>
  The identifier of a Telegram user is delivered by the gateway as a 64-bit integer, so
  it can always be bound in a statement of the store. A user id typed by an
  administrator as the argument of a command is any Python \<open>int\<close>.
\<close>

record tg_user =
  tu_id :: "64 word"
  tu_first_name :: string
  tu_username :: "string option"

definition user_id_of :: "tg_user \<Rightarrow> int" where
  \<comment> \<open>\<open>user.id\<close> as a Python \<open>int\<close>\<close>
  "user_id_of user = sint (tu_id user)"

text \<open>\<open>context.user_data\<close>: the session dictionary of one user, by key.\<close>

record user_data =
  channel_name :: "string option"
  channel_price :: "pyfloat option"
  channel_demo :: "string option"
  awaiting_payment :: "string option"

definition clear :: "user_data \<Rightarrow> user_data" where
  "clear ud = \<lparr>channel_name = None, channel_price = None, channel_demo = None,
               awaiting_payment = None\<rparr>"

record world =
  db :: database
  trace :: "event list"

definition emit :: "event \<Rightarrow> world \<Rightarrow> world" where
  "emit e w = w\<lparr>trace := trace w @ [e]\<rparr>"

datatype conv = CHANNEL_NAME | CHANNEL_PRICE | CHANNEL_DEMO | CHANNEL_FORWARD | END

section \<open>Channel onboarding\<close>

definition add_channel_start ::
  "env \<Rightarrow> tg_user \<Rightarrow> user_data \<Rightarrow> world \<Rightarrow> (exn + conv) \<times> user_data \<times> world" where
  "add_channel_start e user ud w =
     (if user_id_of user \<notin> set (ADMIN_IDS e)
      then (Inr END, ud, emit (Reply NotAuthorized) w)
      else (Inr CHANNEL_NAME, ud, emit (Reply AddChannelStep1) w))"

definition add_channel_name ::
  "env \<Rightarrow> string \<Rightarrow> user_data \<Rightarrow> world \<Rightarrow> (exn + conv) \<times> user_data \<times> world" where
  "add_channel_name e text ud w =
     (let name = strip text
      in (Inr CHANNEL_PRICE, ud\<lparr>channel_name := Some name\<rparr>,
          emit (Reply (AddChannelStep2 name)) w))"

definition add_channel_price ::
  "env \<Rightarrow> string \<Rightarrow> user_data \<Rightarrow> world \<Rightarrow> (exn + conv) \<times> user_data \<times> world" where
  "add_channel_price e text ud w =
     (case py_float (strip text) of
        Some price \<Rightarrow>
          (Inr CHANNEL_DEMO, ud\<lparr>channel_price := Some price\<rparr>,
           emit (Reply (AddChannelStep3 price)) w)
      | None \<Rightarrow> (Inr CHANNEL_PRICE, ud, emit (Reply InvalidPriceNumber) w))"

definition add_channel_demo ::
  "env \<Rightarrow> string \<Rightarrow> user_data \<Rightarrow> world \<Rightarrow> (exn + conv) \<times> user_data \<times> world" where
  "add_channel_demo e text ud w =
     (let demo_text = strip text;
          demo_link = (if lower demo_text = ''skip'' then [] else demo_text)
      in (Inr CHANNEL_FORWARD, ud\<lparr>channel_demo := Some demo_link\<rparr>,
          emit (Reply AddChannelStep4) w))"

definition make_channel_key :: "string \<Rightarrow> string" where
  \<comment> \<open>\<open>channel_name.lower().replace(' ', '_').replace('-', '_')\<close>\<close>
  "make_channel_key name =
     replace_char (CHR ''-'') (CHR ''_'') (replace_char (CHR '' '') (CHR ''_'') (lower name))"

definition insert_channel :: "channel_row \<Rightarrow> database \<Rightarrow> database option" where
  \<comment> \<open>\<open>INSERT INTO channels\<close>; \<open>None\<close> is the \<open>IntegrityError\<close> of the \<open>UNIQUE\<close> key\<close>
  "insert_channel ch d =
     (if c_channel_key ch \<in> set (map c_channel_key (channels d)) then None
      else Some (d\<lparr>channels := channels d @ [ch]\<rparr>))"

definition save_channel ::
  "env \<Rightarrow> tg_user \<Rightarrow> int \<Rightarrow> string \<Rightarrow> user_data \<Rightarrow> world
     \<Rightarrow> (exn + conv) \<times> user_data \<times> world" where
  \<comment> \<open>the part of \<open>add_channel_forward\<close> after the invite link is made; the insert
      either succeeds or violates the \<open>UNIQUE\<close> key, other database errors are left out\<close>
  "save_channel e user channel_id invite_url ud w =
     (case channel_name ud of
        None \<Rightarrow> (Inl KeyError, ud, w)
      | Some name \<Rightarrow>
     (case channel_price ud of
        None \<Rightarrow> (Inl KeyError, ud, w)
      | Some price \<Rightarrow>
     (case channel_demo ud of
        None \<Rightarrow> (Inl KeyError, ud, w)
      | Some demo \<Rightarrow>
          (let channel_key = make_channel_key name;
               row = \<lparr>c_channel_key = channel_key, c_channel_name = name,
                      c_channel_id = channel_id, c_price = price, c_demo_link = demo,
                      c_invite_link = invite_url, c_is_active = True,
                      c_created_date = clock e 0, c_created_by = user_id_of user\<rparr>
           in (case insert_channel row (db w) of
                 Some d \<Rightarrow>
                   (Inr END, clear ud,
                    emit (Reply (ChannelAdded name channel_id price demo)) (w\<lparr>db := d\<rparr>))
               | None \<Rightarrow>
                   (Inr END, clear ud, emit (Reply (ChannelKeyExists channel_key)) w))))))"

definition add_channel_forward ::
  "env \<Rightarrow> tg_user \<Rightarrow> int option \<Rightarrow> user_data \<Rightarrow> world
     \<Rightarrow> (exn + conv) \<times> user_data \<times> world" where
  \<comment> \<open>\<open>forward_from_chat\<close> is the id of the chat the message was forwarded from, if any\<close>
  "add_channel_forward e user forward_from_chat ud w =
     (case forward_from_chat of
        None \<Rightarrow> (Inr CHANNEL_FORWARD, ud, emit (Reply ForwardFromChannelRequired) w)
      | Some channel_id \<Rightarrow>
          (case get_chat_member e channel_id of
             Inl x \<Rightarrow>
               if x = BadRequest \<or> x = Forbidden
               then (Inr CHANNEL_FORWARD, ud, emit (Reply ChannelNotAccessible) w)
               else (Inl x, ud, w)
           | Inr status \<Rightarrow>
               if status \<noteq> ADMINISTRATOR
               then (Inr CHANNEL_FORWARD, ud, emit (Reply BotMustBeAdmin) w)
               else (case create_chat_invite_link e channel_id of
                       Inl err \<Rightarrow>
                         (Inr CHANNEL_FORWARD, ud,
                          emit (Reply (InviteLinkFailed err))
                            (emit (CreateChatInviteLink channel_id) w))
                     | Inr invite_url \<Rightarrow>
                         save_channel e user channel_id invite_url ud
                           (emit (CreateChatInviteLink channel_id) w))))"

definition cancel_add_channel ::
  "env \<Rightarrow> user_data \<Rightarrow> world \<Rightarrow> (exn + conv) \<times> user_data \<times> world" where
  "cancel_add_channel e ud w = (Inr END, clear ud, emit (Reply ChannelAdditionCancelled) w)"

section \<open>The catalog shown to buyers\<close>

definition get_plans_keyboard :: "bool \<Rightarrow> database \<Rightarrow> keyboard" where
  \<comment> \<open>\<open>asyncio.run\<close> raises \<open>RuntimeError\<close> when the caller runs in an event loop, and
      the \<open>except: pass\<close> then leaves the channel rows out; \<open>in_event_loop\<close> says whether
      the caller does\<close>
  "get_plans_keyboard in_event_loop d =
     (if in_event_loop then []
      else map (\<lambda>(channel_key, channel_info).
                  [InlineKeyboardButton
                     (ChannelLabel (i_name channel_info) (i_price channel_info))
                     (CallbackData (''plan_'' @ channel_key))])
             (get_channels_from_db d))
     @ (case active_server_plan d of
          None \<Rightarrow> []
        | Some server_plan \<Rightarrow>
            [[InlineKeyboardButton
                (ServerLabel (sp_plan_name server_plan) (sp_price server_plan))
                (CallbackData ''plan_server_premium'')]])
     @ [[InlineKeyboardButton BackToMainMenu (CallbackData ''main_menu'')]]"

definition channel_line :: "string \<times> channel_info \<Rightarrow> plan_line" where
  "channel_line item =
     (case item of
        (channel_key, channel_info) \<Rightarrow>
          ChannelLine (i_name channel_info) (i_price channel_info)
            (if i_demo_link channel_info \<noteq> [] then Some (i_demo_link channel_info) else None))"

definition plans_text :: "database \<Rightarrow> plan_line list" where
  \<comment> \<open>the lines \<open>show_plans\<close> writes once it has found a channel\<close>
  "plans_text d =
     map channel_line (get_channels_from_db d)
     @ (case active_server_plan d of
          None \<Rightarrow> []
        | Some server_plan \<Rightarrow> [ServerLine (sp_plan_name server_plan) (sp_price server_plan)])"

definition show_plans :: "env \<Rightarrow> bool \<Rightarrow> world \<Rightarrow> (exn + unit) \<times> world" where
  \<comment> \<open>\<open>via_callback\<close>: the update is a button press, so \<open>update.message\<close> is \<open>None\<close>.
      The handler is a coroutine of the bot's event loop, which is where it builds the
      keyboard.\<close>
  "show_plans e via_callback w =
     (if get_channels_from_db (db w) = []
      then (if via_callback then (Inl AttributeError, w)
            else (Inr (), emit (Reply NoPlansAvailable) w))
      else (if via_callback
            then (Inr (), emit (EditMarkup (PlansText (plans_text (db w)))
                                  (get_plans_keyboard True (db w))) w)
            else (Inr (), emit (ReplyMarkup (PlansText (plans_text (db w)))
                                  (get_plans_keyboard True (db w))) w)))"

section \<open>The purchase workflow\<close>

definition plan_selected :: "env \<Rightarrow> string \<Rightarrow> world \<Rightarrow> (exn + unit) \<times> world" where
  "plan_selected e data w =
     (case index (split_on (CHR ''_'') data) 1 of
        Inl x \<Rightarrow> (Inl x, w)
      | Inr plan_key \<Rightarrow>
          if plan_key = ''server'' \<and> length (split_on (CHR ''_'') data) > 2
          then (case active_server_plan (db w) of
                  None \<Rightarrow> (Inr (), emit (EditMessage ServerPlanNotAvailable) w)
                | Some server_plan \<Rightarrow>
                    (Inr (),
                     emit (EditMarkup
                        (ServerPlanDetails (sp_plan_name server_plan) (sp_price server_plan))
                        [[InlineKeyboardButton (PurchaseLabel (sp_plan_name server_plan))
                            (CallbackData ''purchase_server_premium'')],
                         [InlineKeyboardButton BackToPlans (CallbackData ''show_plans'')]]) w))
          else (case map_of (get_channels_from_db (db w)) plan_key of
                  None \<Rightarrow> (Inr (), emit (EditMessage PlanNoLongerAvailable) w)
                | Some plan_info \<Rightarrow>
                    (Inr (),
                     emit (EditMarkup
                        (ChannelPlanDetails (i_name plan_info) (i_price plan_info))
                        (filter (\<lambda>row. row \<noteq> [])
                           [[InlineKeyboardButton (PurchaseLabel (i_name plan_info))
                               (CallbackData (''purchase_'' @ plan_key))],
                            (if i_demo_link plan_info \<noteq> []
                             then [InlineKeyboardButton ViewDemo (Url (i_demo_link plan_info))]
                             else []),
                            [InlineKeyboardButton BackToPlans (CallbackData ''show_plans'')]])) w)))"

definition insert_pending :: "int \<Rightarrow> string \<Rightarrow> pyfloat \<Rightarrow> time \<Rightarrow> database \<Rightarrow> database" where
  \<comment> \<open>\<open>INSERT INTO pending_payments (user_id, channel_key, amount, timestamp)\<close>\<close>
  "insert_pending user_id plan_key amount now d =
     d\<lparr>pending_payments := pending_payments d @
        [\<lparr>p_user_id = user_id, p_channel_key = plan_key, p_amount = amount,
          p_payment_proof = None, p_timestamp = now, p_status = Pending\<rparr>]\<rparr>"

definition purchase_prompt ::
  "string \<Rightarrow> string \<Rightarrow> pyfloat \<Rightarrow> user_data \<Rightarrow> world \<Rightarrow> (exn + unit) \<times> user_data \<times> world" where
  \<comment> \<open>the end of \<open>initiate_purchase\<close>: the payment instructions and the session marker\<close>
  "purchase_prompt plan_data plan_name plan_price ud w =
     (Inr (), ud\<lparr>awaiting_payment := Some plan_data\<rparr>,
      emit (EditMarkup (PurchaseText plan_name plan_price)
              [[InlineKeyboardButton BackToPlans (CallbackData ''show_plans'')]]) w)"

definition initiate_purchase ::
  "env \<Rightarrow> tg_user \<Rightarrow> string \<Rightarrow> user_data \<Rightarrow> world \<Rightarrow> (exn + unit) \<times> user_data \<times> world" where
  "initiate_purchase e user data ud w =
     (case index (split_first (CHR ''_'') data) 1 of
        Inl x \<Rightarrow> (Inl x, ud, w)
      | Inr plan_data \<Rightarrow>
          if plan_data = ''server_premium''
          then (case active_server_plan (db w) of
                  None \<Rightarrow> (Inl UnboundLocalError, ud, w)
                | Some server_plan \<Rightarrow>
                    purchase_prompt plan_data (sp_plan_name server_plan) (sp_price server_plan) ud
                      (w\<lparr>db := insert_pending (user_id_of user) ''server_premium''
                                 (sp_price server_plan) (clock e 0) (db w)\<rparr>))
          else (case map_of (get_channels_from_db (db w)) plan_data of
                  None \<Rightarrow> (Inr (), ud, emit (EditMessage PlanNoLongerAvailable) w)
                | Some plan_info \<Rightarrow>
                    purchase_prompt plan_data (i_name plan_info) (i_price plan_info) ud
                      (w\<lparr>db := insert_pending (user_id_of user) plan_data
                                 (i_price plan_info) (clock e 0) (db w)\<rparr>)))"

definition update_pending_proof :: "string \<Rightarrow> int \<Rightarrow> string \<Rightarrow> database \<Rightarrow> database" where
  \<comment> \<open>\<open>UPDATE pending_payments SET payment_proof = ?, status = 'submitted'
       WHERE user_id = ? AND channel_key = ? AND status = 'pending'\<close>\<close>
  "update_pending_proof file_id user_id plan_key d =
     d\<lparr>pending_payments :=
        map (\<lambda>p. if p_user_id p = user_id \<and> p_channel_key p = plan_key \<and> p_status p = Pending
                  then p\<lparr>p_payment_proof := Some file_id, p_status := Submitted\<rparr>
                  else p)
          (pending_payments d)\<rparr>"

fun notify_admins :: "env \<Rightarrow> string \<Rightarrow> msg \<Rightarrow> int list \<Rightarrow> world \<Rightarrow> world" where
  "notify_admins e file_id caption [] w = w"
| "notify_admins e file_id caption (admin_id # rest) w =
     notify_admins e file_id caption rest
       (if send_photo_raises e admin_id
        then emit (LogError (FailedToNotifyAdmin admin_id))
               (emit (SendPhoto admin_id file_id caption) w)
        else emit (SendPhoto admin_id file_id caption) w)"

definition submit_proof ::
  "env \<Rightarrow> tg_user \<Rightarrow> string list \<Rightarrow> string option \<Rightarrow> string \<Rightarrow> string \<Rightarrow> pyfloat
     \<Rightarrow> user_data \<Rightarrow> world \<Rightarrow> (exn + unit) \<times> user_data \<times> world" where
  \<comment> \<open>the part of \<open>handle_payment_proof\<close> after the plan is known; \<open>photo\<close> holds the
      file ids of the sizes of the photo, \<open>document\<close> the file id of the document\<close>
  "submit_proof e user photo document plan_key plan_name plan_price ud w =
     (case (if photo \<noteq> [] then Some (last photo) else document) of
        None \<Rightarrow> (Inr (), ud, w)
      | Some file_id \<Rightarrow>
          (Inr (), ud\<lparr>awaiting_payment := None\<rparr>,
           notify_admins e file_id
             (AdminNewSubmission (tu_first_name user) (user_id_of user) (tu_username user)
                plan_name plan_price (clock e 0) plan_key)
             (ADMIN_IDS e)
             (emit (Reply ProofSubmitted)
                (w\<lparr>db := update_pending_proof file_id (user_id_of user) plan_key (db w)\<rparr>))))"

definition handle_payment_proof ::
  "env \<Rightarrow> tg_user \<Rightarrow> string list \<Rightarrow> string option \<Rightarrow> user_data \<Rightarrow> world
     \<Rightarrow> (exn + unit) \<times> user_data \<times> world" where
  "handle_payment_proof e user photo document ud w =
     (case awaiting_payment ud of
        None \<Rightarrow> (Inr (), ud, w)
      | Some plan_key \<Rightarrow>
          if plan_key = ''server_premium''
          then (case active_server_plan (db w) of
                  Some server_plan \<Rightarrow>
                    submit_proof e user photo document plan_key
                      (sp_plan_name server_plan) (sp_price server_plan) ud w
                | None \<Rightarrow>
                    submit_proof e user photo document plan_key
                      ''Server Premium'' (Finite 599) ud w)
          else (case map_of (get_channels_from_db (db w)) plan_key of
                  Some channel_info \<Rightarrow>
                    submit_proof e user photo document plan_key
                      (i_name channel_info) (i_price channel_info) ud w
                | None \<Rightarrow> (Inr (), ud, emit (Reply InvalidPlan) w)))"

section \<open>Administrator decisions\<close>

definition mark_invoice_sent :: "int \<Rightarrow> string \<Rightarrow> database \<Rightarrow> database" where
  \<comment> \<open>\<open>UPDATE subscriptions SET invoice_sent = 1
       WHERE user_id = ? AND channel_key = ? AND is_active = 1\<close>\<close>
  "mark_invoice_sent user_id plan_key d =
     d\<lparr>subscriptions :=
        map (\<lambda>s. if s_user_id s = user_id \<and> s_channel_key s = plan_key \<and> s_is_active s
                  then s\<lparr>s_invoice_sent := True\<rparr> else s)
          (subscriptions d)\<rparr>"

definition deliver_invoice :: "env \<Rightarrow> int \<Rightarrow> string \<Rightarrow> msg \<Rightarrow> world \<Rightarrow> world" where
  \<comment> \<open>the \<open>try\<close> at the end of \<open>send_invoice_with_links\<close>\<close>
  "deliver_invoice e user_id plan_key invoice_text w =
     (if send_message_raises e user_id
      then emit (LogError (FailedToSendInvoice user_id))
             (emit (SendMessage user_id invoice_text) w)
      else (emit (SendMessage user_id invoice_text) w)
             \<lparr>db := mark_invoice_sent user_id plan_key (db w)\<rparr>)"

definition send_invoice_with_links :: "env \<Rightarrow> time \<Rightarrow> int \<Rightarrow> string \<Rightarrow> world \<Rightarrow> world" where
  \<comment> \<open>\<open>now\<close> is the value of its one call of \<open>datetime.now()\<close>\<close>
  "send_invoice_with_links e now user_id plan_key w =
     (if plan_key = ''server_premium''
      then (case active_server_plan (db w) of
              None \<Rightarrow> w
            | Some server_plan \<Rightarrow>
                deliver_invoice e user_id plan_key
                  (InvoiceServer (sp_plan_name server_plan) (sp_price server_plan)
                     (now + timedelta_days 30)
                     (map (\<lambda>(channel_key, channel_info).
                             (i_name channel_info, i_invite_link channel_info))
                        (filter (\<lambda>(channel_key, channel_info). i_invite_link channel_info \<noteq> [])
                           (get_channels_from_db (db w))))) w)
      else (case map_of (get_channels_from_db (db w)) plan_key of
              None \<Rightarrow> w
            | Some channel_info \<Rightarrow>
                deliver_invoice e user_id plan_key
                  (InvoiceChannel (i_name channel_info) (i_price channel_info)
                     (now + timedelta_days 30) (i_invite_link channel_info)) w))"

definition insert_subscription ::
  "int \<Rightarrow> string \<Rightarrow> time \<Rightarrow> time \<Rightarrow> database \<Rightarrow> database" where
  \<comment> \<open>\<open>INSERT INTO subscriptions (user_id, channel_key, start_date, end_date, is_active,
       payment_confirmed) VALUES (?, ?, ?, ?, 1, 1)\<close>; \<open>invoice_sent\<close> defaults to 0\<close>
  "insert_subscription user_id plan_key start_date end_date d =
     d\<lparr>subscriptions := subscriptions d @
        [\<lparr>s_user_id = user_id, s_channel_key = plan_key, s_start_date = start_date,
          s_end_date = end_date, s_is_active = True, s_payment_confirmed = True,
          s_invoice_sent = False\<rparr>]\<rparr>"

definition update_pending_status ::
  "pay_status \<Rightarrow> int \<Rightarrow> string \<Rightarrow> database \<Rightarrow> database" where
  \<comment> \<open>\<open>UPDATE pending_payments SET status = ?
       WHERE user_id = ? AND channel_key = ? AND status = 'submitted'\<close>\<close>
  "update_pending_status new_status user_id plan_key d =
     d\<lparr>pending_payments :=
        map (\<lambda>p. if p_user_id p = user_id \<and> p_channel_key p = plan_key \<and> p_status p = Submitted
                  then p\<lparr>p_status := new_status\<rparr> else p)
          (pending_payments d)\<rparr>"

fun add_user_to_all_channels ::
  "env \<Rightarrow> int \<Rightarrow> (string \<times> channel_info) list \<Rightarrow> world \<Rightarrow> world" where
  \<comment> \<open>the loop of the server premium branch of \<open>approve_payment\<close>\<close>
  "add_user_to_all_channels e user_id [] w = w"
| "add_user_to_all_channels e user_id ((channel_key, channel_info) # rest) w =
     add_user_to_all_channels e user_id rest
       (if unban_raises e (i_channel_id channel_info) user_id
        then emit (LogError (FailedToAddUserTo (i_name channel_info)))
               (emit (UnbanChatMember (i_channel_id channel_info) user_id) w)
        else emit (UnbanChatMember (i_channel_id channel_info) user_id) w)"

definition add_user_to_channel :: "env \<Rightarrow> int \<Rightarrow> channel_info \<Rightarrow> world \<Rightarrow> world" where
  "add_user_to_channel e user_id channel_info w =
     (if unban_raises e (i_channel_id channel_info) user_id
      then emit (LogError FailedToAddUserToChannel)
             (emit (UnbanChatMember (i_channel_id channel_info) user_id) w)
      else emit (UnbanChatMember (i_channel_id channel_info) user_id) w)"

definition finish_approval ::
  "env \<Rightarrow> int \<Rightarrow> string \<Rightarrow> string \<Rightarrow> pyfloat \<Rightarrow> time \<Rightarrow> world \<Rightarrow> (exn + unit) \<times> world" where
  \<comment> \<open>the end of \<open>approve_payment\<close>, common to both kinds of plan\<close>
  "finish_approval e user_id plan_key plan_name plan_price end_date w =
     (Inr (),
      emit (Reply (PaymentApproved user_id plan_name plan_price end_date))
        (send_invoice_with_links e (clock e 2) user_id plan_key
           (w\<lparr>db := update_pending_status Approved user_id plan_key (db w)\<rparr>)))"

definition approve_payment ::
  "env \<Rightarrow> tg_user \<Rightarrow> string list \<Rightarrow> world \<Rightarrow> (exn + unit) \<times> world" where
  \<comment> \<open>the \<open>INSERT\<close> is the first statement that binds \<open>user_id\<close>; when it raises
      \<open>OverflowError\<close> the \<open>except Exception\<close> of the handler answers, and nothing is
      stored\<close>
  "approve_payment e user args w =
     (if user_id_of user \<notin> set (ADMIN_IDS e) then (Inr (), emit (Reply NotAuthorized) w)
      else if length args < 2 then (Inr (), emit (Reply UsageApprove) w)
      else (case py_int (args ! 0) of
              None \<Rightarrow> (Inr (), emit (Reply (ErrorApproving ValueError)) w)
            | Some user_id \<Rightarrow>
                (let plan_key = args ! 1
                 in if plan_key = ''server_premium''
                    then (case active_server_plan (db w) of
                            None \<Rightarrow> (Inr (), emit (Reply ServerPlanNotFound) w)
                          | Some server_plan \<Rightarrow>
                              if \<not> sqlite_integer user_id
                              then (Inr (), emit (Reply (ErrorApproving OverflowError)) w)
                              else
                              (let end_date = clock e 0 + timedelta_days 30;
                                   w1 = w\<lparr>db := insert_subscription user_id ''server_premium''
                                                  (clock e 1) end_date (db w)\<rparr>
                               in finish_approval e user_id plan_key
                                    (sp_plan_name server_plan) (sp_price server_plan) end_date
                                    (add_user_to_all_channels e user_id
                                       (get_channels_from_db (db w1)) w1)))
                    else (case map_of (get_channels_from_db (db w)) plan_key of
                            None \<Rightarrow> (Inr (), emit (Reply ChannelNotFound) w)
                          | Some channel_info \<Rightarrow>
                              if \<not> sqlite_integer user_id
                              then (Inr (), emit (Reply (ErrorApproving OverflowError)) w)
                              else
                              (let end_date = clock e 0 + timedelta_days 30;
                                   w1 = w\<lparr>db := insert_subscription user_id plan_key
                                                  (clock e 1) end_date (db w)\<rparr>
                               in finish_approval e user_id plan_key
                                    (i_name channel_info) (i_price channel_info) end_date
                                    (add_user_to_channel e user_id channel_info w1))))))"

definition reject_payment ::
  "env \<Rightarrow> tg_user \<Rightarrow> string list \<Rightarrow> world \<Rightarrow> (exn + unit) \<times> world" where
  \<comment> \<open>the \<open>UPDATE\<close> binds \<open>user_id\<close>; when it raises \<open>OverflowError\<close> the
      \<open>except Exception\<close> of the handler answers, and the buyer is sent nothing\<close>
  "reject_payment e user args w =
     (if user_id_of user \<notin> set (ADMIN_IDS e) then (Inr (), emit (Reply NotAuthorized) w)
      else if length args < 2 then (Inr (), emit (Reply UsageReject) w)
      else (case py_int (args ! 0) of
              None \<Rightarrow> (Inr (), emit (Reply (ErrorRejecting ValueError)) w)
            | Some user_id \<Rightarrow>
                if \<not> sqlite_integer user_id
                then (Inr (), emit (Reply (ErrorRejecting OverflowError)) w)
                else
                (let plan_key = args ! 1;
                     reason = (if length args > 2 then join_space (drop 2 args)
                               else ''Payment verification failed'');
                     w1 = w\<lparr>db := update_pending_status Rejected user_id plan_key (db w)\<rparr>;
                     w2 = emit (SendMessage user_id (RejectNotice reason)) w1;
                     w3 = (if send_message_raises e user_id
                           then emit (LogError FailedToNotifyUser) w2 else w2)
                 in (Inr (), emit (Reply (PaymentRejected user_id)) w3))))"

section \<open>Routing of button presses\<close>

definition button_callback ::
  "env \<Rightarrow> tg_user \<Rightarrow> string \<Rightarrow> user_data \<Rightarrow> world \<Rightarrow> (exn + unit) \<times> user_data \<times> world" where
  "button_callback e user data ud w =
     (if data = ''show_plans''
      then (case show_plans e True w of (r, w') \<Rightarrow> (r, ud, w'))
      else if startswith data ''plan_''
      then (case plan_selected e data w of (r, w') \<Rightarrow> (r, ud, w'))
      else if startswith data ''purchase_''
      then initiate_purchase e user data ud w
      else if data = ''main_menu''
      then (Inr (), ud,
            emit (EditMarkup MainMenu
                    [[InlineKeyboardButton ViewPlans (CallbackData ''show_plans'')]]) w)
      else (Inr (), ud, w))"

section \<open>Example states\<close>

definition example_env :: env where
  "example_env =
     \<lparr>ADMIN_IDS = [1], clock = (\<lambda>k. 1000 + int k),
      unban_raises = (\<lambda>channel_id user_id. False),
      send_message_raises = (\<lambda>chat_id. False),
      send_photo_raises = (\<lambda>chat_id. False),
      get_chat_member = (\<lambda>channel_id. Inr ADMINISTRATOR),
      create_chat_invite_link = (\<lambda>channel_id. Inr ''https://t.me/+vip'')\<rparr>"

definition admin :: tg_user where
  "admin = \<lparr>tu_id = 1, tu_first_name = ''Ada'', tu_username = None\<rparr>"

definition buyer :: tg_user where
  "buyer = \<lparr>tu_id = 42, tu_first_name = ''Bob'', tu_username = Some ''bob''\<rparr>"

definition empty_session :: user_data where
  "empty_session =
     \<lparr>channel_name = None, channel_price = None, channel_demo = None, awaiting_payment = None\<rparr>"

definition vip_session :: user_data where
  \<comment> \<open>the session after the name, price and demo steps of onboarding "VIP Content"\<close>
  "vip_session =
     \<lparr>channel_name = Some ''VIP Content'', channel_price = Some (Finite 200),
      channel_demo = Some [], awaiting_payment = None\<rparr>"

definition fresh_world :: world where
  \<comment> \<open>the store after the first start of the bot\<close>
  "fresh_world = \<lparr>db = setup_database 0 empty_database, trace = []\<rparr>"

definition vip_row :: channel_row where
  "vip_row =
     \<lparr>c_channel_key = ''vip_content'', c_channel_name = ''VIP Content'',
      c_channel_id = - 1001, c_price = Finite 200, c_demo_link = [],
      c_invite_link = ''https://t.me/+vip'', c_is_active = True,
      c_created_date = 1000, c_created_by = 1\<rparr>"

definition shop_world :: world where
  \<comment> \<open>the store after the administrator has onboarded "VIP Content"\<close>
  "shop_world = \<lparr>db = (setup_database 0 empty_database)\<lparr>channels := [vip_row]\<rparr>, trace = []\<rparr>"

definition submitted_row :: pending_row where
  "submitted_row =
     \<lparr>p_user_id = 42, p_channel_key = ''vip_content'', p_amount = Finite 200,
      p_payment_proof = Some ''file-1'', p_timestamp = 1000, p_status = Submitted\<rparr>"

definition review_world :: world where
  \<comment> \<open>the store once the buyer has checked out "VIP Content" and sent a proof\<close>
  "review_world =
     \<lparr>db = (setup_database 0 empty_database)
              \<lparr>channels := [vip_row], pending_payments := [submitted_row]\<rparr>,
      trace = []\<rparr>"

definition hyphen_session :: user_data where
  \<comment> \<open>the session after the name, price and demo steps of onboarding "vip-content"\<close>
  "hyphen_session =
     \<lparr>channel_name = Some ''vip-content'', channel_price = Some (Finite 150),
      channel_demo = Some [], awaiting_payment = None\<rparr>"

section \<open>Observations used in the statements\<close>

definition plan_info :: "database \<Rightarrow> string \<Rightarrow> (string \<times> pyfloat) option" where
  \<comment> \<open>name and price of a plan, as the purchase handlers and \<open>approve_payment\<close> look them up\<close>
  "plan_info d plan_key =
     (if plan_key = ''server_premium''
      then map_option (\<lambda>server_plan. (sp_plan_name server_plan, sp_price server_plan))
             (active_server_plan d)
      else map_option (\<lambda>channel_info. (i_name channel_info, i_price channel_info))
             (map_of (get_channels_from_db d) plan_key))"

definition subscriptions_of :: "int \<Rightarrow> string \<Rightarrow> database \<Rightarrow> subscription_row list" where
  "subscriptions_of user_id plan_key d =
     filter (\<lambda>s. s_user_id s = user_id \<and> s_channel_key s = plan_key) (subscriptions d)"

definition payments_in :: "pay_status \<Rightarrow> int \<Rightarrow> string \<Rightarrow> database \<Rightarrow> pending_row list" where
  "payments_in status user_id plan_key d =
     filter (\<lambda>p. p_user_id p = user_id \<and> p_channel_key p = plan_key \<and> p_status p = status)
       (pending_payments d)"

definition grant_events :: "env \<Rightarrow> int \<Rightarrow> string \<times> channel_info \<Rightarrow> event list" where
  \<comment> \<open>one round of the grant loop: the call, and the log entry when the call raises\<close>
  "grant_events e user_id item =
     (case item of
        (channel_key, channel_info) \<Rightarrow>
          if unban_raises e (i_channel_id channel_info) user_id
          then [UnbanChatMember (i_channel_id channel_info) user_id,
                LogError (FailedToAddUserTo (i_name channel_info))]
          else [UnbanChatMember (i_channel_id channel_info) user_id])"

definition invoice_links :: "database \<Rightarrow> (string \<times> string) list" where
  \<comment> \<open>the links of the server premium invoice: every active channel with an invite link\<close>
  "invoice_links d =
     map (\<lambda>(channel_key, channel_info). (i_name channel_info, i_invite_link channel_info))
       (filter (\<lambda>(channel_key, channel_info). i_invite_link channel_info \<noteq> [])
          (get_channels_from_db d))"

definition checkout :: "env \<Rightarrow> tg_user \<Rightarrow> string \<Rightarrow> user_data \<times> world \<Rightarrow> user_data \<times> world" where
  \<comment> \<open>the buyer presses the purchase button of a plan; session and world are threaded\<close>
  "checkout e buyer_user plan_key s =
     snd (initiate_purchase e buyer_user (''purchase_'' @ plan_key) (fst s) (snd s))"

definition submit :: "env \<Rightarrow> tg_user \<Rightarrow> string \<Rightarrow> user_data \<times> world \<Rightarrow> user_data \<times> world" where
  \<comment> \<open>the buyer sends a photo with one size, whose file id is \<open>file_id\<close>\<close>
  "submit e buyer_user file_id s =
     snd (handle_payment_proof e buyer_user [file_id] None (fst s) (snd s))"

definition checkout_submit_approve ::
  "env \<Rightarrow> env \<Rightarrow> env \<Rightarrow> tg_user \<Rightarrow> tg_user \<Rightarrow> string \<Rightarrow> string \<Rightarrow> string
     \<Rightarrow> user_data \<Rightarrow> world \<Rightarrow> world" where
  \<comment> \<open>checkout, proof, and then an administrator runs \<open>/approve <user_id> <plan_key>\<close>;
      each handler run has its own environment\<close>
  "checkout_submit_approve e1 e2 e3 buyer_user admin_user plan_key file_id user_id_text ud w =
     snd (approve_payment e3 admin_user [user_id_text, plan_key]
            (snd (submit e2 buyer_user file_id (checkout e1 buyer_user plan_key (ud, w)))))"

definition movies_row :: channel_row where
  "movies_row =
     \<lparr>c_channel_key = ''movies'', c_channel_name = ''Movies'',
      c_channel_id = - 1002, c_price = Finite 500, c_demo_link = ''https://t.me/demo'',
      c_invite_link = ''https://t.me/+movies'', c_is_active = True,
      c_created_date = 2000, c_created_by = 1\<rparr>"

definition two_channel_world :: world where
  "two_channel_world =
     \<lparr>db = (setup_database 0 empty_database)\<lparr>channels := [vip_row, movies_row]\<rparr>, trace = []\<rparr>"

definition failing_env :: env where
  \<comment> \<open>like \<open>example_env\<close>, but granting membership of channel \<open>-1001\<close> raises\<close>
  "failing_env = example_env\<lparr>unban_raises := (\<lambda>channel_id user_id. channel_id = - 1001)\<rparr>"

section \<open>Facts about the string operations\<close>

lemma lower_char_space: "lower_char c = CHR '' '' \<longleftrightarrow> c = CHR '' ''"
  by (cases c) (auto simp: lower_char_def Let_def)

lemma lower_char_hyphen: "lower_char c = CHR ''-'' \<longleftrightarrow> c = CHR ''-''"
  by (cases c) (auto simp: lower_char_def Let_def)

lemma make_channel_key_char:
  "make_channel_key name =
     map (\<lambda>c. if c = CHR '' '' \<or> c = CHR ''-'' then CHR ''_'' else lower_char c) name"
  by (induction name)
     (auto simp: make_channel_key_def replace_char_def lower_def lower_char_space
        lower_char_hyphen)

lemma digitpart_no_digit:
  "(\<And>c. c \<in> set s \<Longrightarrow> digit_of c = None) \<Longrightarrow> digitpart s = None"
  by (cases s) (auto simp: digitpart_def)

lemma floatnumber_no_digit:
  assumes "\<And>c. c \<in> set s \<Longrightarrow> digit_of c = None"
  shows "floatnumber s = None"
proof (cases s)
  case Nil
  then show ?thesis by (simp add: floatnumber_def)
next
  case (Cons c r)
  have "digitpart s = None" using assms by (rule digitpart_no_digit)
  moreover have "digitpart r = None" using assms Cons by (intro digitpart_no_digit) simp
  ultimately show ?thesis using Cons by (simp add: floatnumber_def)
qed

lemma last_dropWhile_keep: "dropWhile P xs \<noteq> [] \<Longrightarrow> last (dropWhile P xs) = last xs"
  by (induction xs) (auto split: if_splits)

lemma strip_strip: "strip (strip s) = strip s"
proof -
  let ?P = is_space
  let ?a = "dropWhile ?P s"
  let ?b = "dropWhile ?P (rev ?a)"
  have b_hd: "?b = [] \<or> \<not> ?P (hd ?b)"
    using hd_dropWhile [of ?P "rev ?a"] by blast
  have b_last: "?b = [] \<or> \<not> ?P (last ?b)"
  proof (cases "?b = []")
    case True
    then show ?thesis by simp
  next
    case False
    then have "last ?b = last (rev ?a)" by (rule last_dropWhile_keep)
    moreover have "?a \<noteq> []"
    proof
      assume a: "?a = []"
      have "?b = dropWhile ?P (rev [])" by (simp only: a)
      with False show False by simp
    qed
    ultimately have "last ?b = hd ?a" by (simp add: last_rev)
    moreover have "\<not> ?P (hd ?a)" using \<open>?a \<noteq> []\<close> by (rule hd_dropWhile)
    ultimately show ?thesis by simp
  qed
  have "dropWhile ?P (rev ?b) = rev ?b"
    using b_last by (cases "?b = []") (auto simp: dropWhile_eq_self_iff hd_rev)
  moreover have "dropWhile ?P ?b = ?b"
    using b_hd by (auto simp: dropWhile_eq_self_iff)
  ultimately show ?thesis by (simp add: strip_def)
qed

lemma set_strip: "set (strip s) \<subseteq> set s"
  unfolding strip_def
  by (metis (no_types, lifting) set_dropWhileD set_rev subsetI)

lemma set_sign_split: "set (snd (sign_split s)) \<subseteq> set s"
  by (auto simp: sign_split_def split: list.splits)

lemma py_float_no_digit:
  assumes nodigit: "\<And>c. c \<in> set text \<Longrightarrow> digit_of c = None"
    and noword: "lower (snd (sign_split (strip text))) \<notin> {''inf'', ''infinity'', ''nan''}"
  shows "py_float (strip text) = None"
proof -
  obtain neg u where su: "sign_split (strip text) = (neg, u)"
    by (cases "sign_split (strip text)")
  have "set u \<subseteq> set text"
    using set_sign_split [of "strip text"] set_strip [of "text"] su by auto
  then have "floatnumber u = None"
    using nodigit by (intro floatnumber_no_digit) auto
  then show ?thesis
    using noword su by (simp add: py_float_def strip_strip)
qed

lemma split_on_not_empty: "split_on sep s \<noteq> []"
  by (induction s) (auto split: list.splits)

lemma hd_split_on: "hd (split_on sep s) = takeWhile (\<lambda>c. c \<noteq> sep) s"
  by (induction s) (auto simp: split_on_not_empty split: list.splits)

lemma length_split_on: "length (split_on sep s) = Suc (length (filter (\<lambda>c. c = sep) s))"
  by (induction s) (auto simp: split_on_not_empty split: list.splits)

lemma split_on_plan_payload:
  "split_on (CHR ''_'') (''plan_'' @ key) = ''plan'' # split_on (CHR ''_'') key"
  by (cases "split_on (CHR ''_'') key") (simp_all add: split_on_not_empty)

lemma plan_selected_reads_first_token:
  "index (split_on (CHR ''_'') (''plan_'' @ key)) 1 = Inr (takeWhile (\<lambda>c. c \<noteq> CHR ''_'') key)"
proof -
  obtain t ts where parts: "split_on (CHR ''_'') key = t # ts"
    using split_on_not_empty [of "CHR ''_''" key] by (cases "split_on (CHR ''_'') key") auto
  have "t = takeWhile (\<lambda>c. c \<noteq> CHR ''_'') key"
    using hd_split_on [of "CHR ''_''" key] parts by simp
  then show ?thesis
    by (simp add: split_on_plan_payload parts index_def)
qed

lemma initiate_purchase_reads_whole_key:
  "index (split_first (CHR ''_'') (''purchase_'' @ key)) 1 = Inr key"
  by (simp add: split_first_def index_def)

section \<open>Facts about the channel dictionary\<close>

lemma dict_set_fresh: "k \<notin> fst ` set d \<Longrightarrow> dict_set d k v = d @ [(k, v)]"
  by (induction d) auto

lemma foldl_dict_set_distinct:
  assumes "distinct (map c_channel_key rows)"
    and "c_channel_key ` set rows \<inter> fst ` set acc = {}"
  shows "foldl (\<lambda>channel_dict ch. dict_set channel_dict (c_channel_key ch) (info_of ch)) acc rows
     = acc @ map (\<lambda>ch. (c_channel_key ch, info_of ch)) rows"
  using assms
proof (induction rows arbitrary: acc)
  case Nil
  then show ?case by simp
next
  case (Cons ch rows)
  have fresh: "c_channel_key ch \<notin> fst ` set acc"
    using Cons.prems(2) by auto
  have step: "dict_set acc (c_channel_key ch) (info_of ch) = acc @ [(c_channel_key ch, info_of ch)]"
    using fresh by (rule dict_set_fresh)
  have disjoint: "c_channel_key ` set rows \<inter> fst ` set (acc @ [(c_channel_key ch, info_of ch)]) = {}"
    using Cons.prems by auto
  have "distinct (map c_channel_key rows)"
    using Cons.prems(1) by simp
  then show ?case
    using Cons.IH [OF _ disjoint] step by simp
qed

lemma get_channels_from_db_distinct:
  assumes "distinct (map c_channel_key (channels d))"
  shows "get_channels_from_db d
     = map (\<lambda>ch. (c_channel_key ch, info_of ch)) (filter c_is_active (channels d))"
proof -
  have "distinct (map c_channel_key (filter c_is_active (channels d)))"
    using assms by (rule distinct_map_filter)
  then show ?thesis
    unfolding get_channels_from_db_def
    using foldl_dict_set_distinct [of "filter c_is_active (channels d)" "[]"] by simp
qed

lemma insert_channel_keeps_keys_distinct:
  assumes "distinct (map c_channel_key (channels d))" and "insert_channel ch d = Some d'"
  shows "distinct (map c_channel_key (channels d'))"
  using assms by (auto simp: insert_channel_def split: if_splits)

section \<open>Facts about the administrator decisions\<close>

lemma get_channels_from_db_channels:
  "channels d' = channels d \<Longrightarrow> get_channels_from_db d' = get_channels_from_db d"
  by (simp add: get_channels_from_db_def)

lemma active_server_plan_server_plans:
  "server_plans d' = server_plans d \<Longrightarrow> active_server_plan d' = active_server_plan d"
  by (simp add: active_server_plan_def)

lemma channels_unchanged:
  "channels (insert_subscription u k s t d) = channels d"
  "channels (update_pending_status st u k d) = channels d"
  "channels (mark_invoice_sent u k d) = channels d"
  "channels (insert_pending u k a t d) = channels d"
  "channels (update_pending_proof f u k d) = channels d"
  by (simp_all add: insert_subscription_def update_pending_status_def mark_invoice_sent_def
        insert_pending_def update_pending_proof_def)

lemma server_plans_unchanged:
  "server_plans (insert_subscription u k s t d) = server_plans d"
  "server_plans (update_pending_status st u k d) = server_plans d"
  "server_plans (mark_invoice_sent u k d) = server_plans d"
  "server_plans (insert_pending u k a t d) = server_plans d"
  "server_plans (update_pending_proof f u k d) = server_plans d"
  by (simp_all add: insert_subscription_def update_pending_status_def mark_invoice_sent_def
        insert_pending_def update_pending_proof_def)

lemma get_channels_from_db_unchanged:
  "get_channels_from_db (insert_subscription u k s t d) = get_channels_from_db d"
  "get_channels_from_db (update_pending_status st u k d) = get_channels_from_db d"
  "get_channels_from_db (mark_invoice_sent u k d) = get_channels_from_db d"
  "get_channels_from_db (insert_pending u k a t d) = get_channels_from_db d"
  "get_channels_from_db (update_pending_proof f u k d) = get_channels_from_db d"
  by (simp_all add: get_channels_from_db_def channels_unchanged)

lemma active_server_plan_unchanged:
  "active_server_plan (insert_subscription u k s t d) = active_server_plan d"
  "active_server_plan (update_pending_status st u k d) = active_server_plan d"
  "active_server_plan (mark_invoice_sent u k d) = active_server_plan d"
  "active_server_plan (insert_pending u k a t d) = active_server_plan d"
  "active_server_plan (update_pending_proof f u k d) = active_server_plan d"
  by (simp_all add: active_server_plan_def server_plans_unchanged)

lemma add_user_to_all_channels_db:
  "db (add_user_to_all_channels e user_id items w) = db w"
  by (induction items arbitrary: w) (auto simp: emit_def)

lemma add_user_to_all_channels_trace:
  "trace (add_user_to_all_channels e user_id items w)
     = trace w @ concat (map (grant_events e user_id) items)"
  by (induction items arbitrary: w) (auto simp: emit_def grant_events_def)

lemma add_user_to_channel_db: "db (add_user_to_channel e user_id channel_info w) = db w"
  by (simp add: add_user_to_channel_def emit_def)

text \<open>
  The run of \<open>approve_payment\<close> for the server premium plan, by an administrator, with
  a user id that parses and an active plan row: its result and the trace and store it
  leaves, whatever the pending payments are.
\<close>

lemma approve_payment_server_premium:
  fixes rest :: "string list"
  assumes admin: "user_id_of user \<in> set (ADMIN_IDS e)"
    and uid: "py_int a0 = Some user_id"
    and fits: "sqlite_integer user_id"
    and plan: "active_server_plan (db w) = Some server_plan"
  defines "w' \<equiv> snd (approve_payment e user (a0 # ''server_premium'' # rest) w)"
  shows "fst (approve_payment e user (a0 # ''server_premium'' # rest) w) = Inr ()"
    and "trace w' = trace w
          @ concat (map (grant_events e user_id) (get_channels_from_db (db w)))
          @ [SendMessage user_id
               (InvoiceServer (sp_plan_name server_plan) (sp_price server_plan)
                  (clock e 2 + timedelta_days 30) (invoice_links (db w)))]
          @ (if send_message_raises e user_id then [LogError (FailedToSendInvoice user_id)] else [])
          @ [Reply (PaymentApproved user_id (sp_plan_name server_plan) (sp_price server_plan)
                      (clock e 0 + timedelta_days 30))]"
    and "db w' =
      (if send_message_raises e user_id
       then update_pending_status Approved user_id ''server_premium''
              (insert_subscription user_id ''server_premium'' (clock e 1)
                 (clock e 0 + timedelta_days 30) (db w))
       else mark_invoice_sent user_id ''server_premium''
              (update_pending_status Approved user_id ''server_premium''
                 (insert_subscription user_id ''server_premium'' (clock e 1)
                    (clock e 0 + timedelta_days 30) (db w))))"
proof -
  note defs = approve_payment_def finish_approval_def send_invoice_with_links_def
    deliver_invoice_def emit_def Let_def invoice_links_def w'_def
  note frame = add_user_to_all_channels_db add_user_to_all_channels_trace
    active_server_plan_unchanged get_channels_from_db_unchanged
  show "fst (approve_payment e user (a0 # ''server_premium'' # rest) w) = Inr ()"
    using admin uid fits plan by (simp add: defs frame)
  show "trace w' = trace w
          @ concat (map (grant_events e user_id) (get_channels_from_db (db w)))
          @ [SendMessage user_id
               (InvoiceServer (sp_plan_name server_plan) (sp_price server_plan)
                  (clock e 2 + timedelta_days 30) (invoice_links (db w)))]
          @ (if send_message_raises e user_id then [LogError (FailedToSendInvoice user_id)] else [])
          @ [Reply (PaymentApproved user_id (sp_plan_name server_plan) (sp_price server_plan)
                      (clock e 0 + timedelta_days 30))]"
    using admin uid fits plan by (simp add: defs frame)
  show "db w' =
      (if send_message_raises e user_id
       then update_pending_status Approved user_id ''server_premium''
              (insert_subscription user_id ''server_premium'' (clock e 1)
                 (clock e 0 + timedelta_days 30) (db w))
       else mark_invoice_sent user_id ''server_premium''
              (update_pending_status Approved user_id ''server_premium''
                 (insert_subscription user_id ''server_premium'' (clock e 1)
                    (clock e 0 + timedelta_days 30) (db w))))"
    using admin uid fits plan by (simp add: defs frame)
qed

text \<open>The same for the plan of one channel that is in the channel dictionary.\<close>

lemma approve_payment_channel:
  fixes rest :: "string list"
  assumes admin: "user_id_of user \<in> set (ADMIN_IDS e)"
    and uid: "py_int a0 = Some user_id"
    and fits: "sqlite_integer user_id"
    and key: "plan_key \<noteq> ''server_premium''"
    and found: "map_of (get_channels_from_db (db w)) plan_key = Some channel_info"
  defines "w' \<equiv> snd (approve_payment e user (a0 # plan_key # rest) w)"
  shows "fst (approve_payment e user (a0 # plan_key # rest) w) = Inr ()"
    and "trace w' = trace w
          @ [UnbanChatMember (i_channel_id channel_info) user_id]
          @ (if unban_raises e (i_channel_id channel_info) user_id
             then [LogError FailedToAddUserToChannel] else [])
          @ [SendMessage user_id
               (InvoiceChannel (i_name channel_info) (i_price channel_info)
                  (clock e 2 + timedelta_days 30) (i_invite_link channel_info))]
          @ (if send_message_raises e user_id then [LogError (FailedToSendInvoice user_id)] else [])
          @ [Reply (PaymentApproved user_id (i_name channel_info) (i_price channel_info)
                      (clock e 0 + timedelta_days 30))]"
    and "db w' =
      (if send_message_raises e user_id
       then update_pending_status Approved user_id plan_key
              (insert_subscription user_id plan_key (clock e 1)
                 (clock e 0 + timedelta_days 30) (db w))
       else mark_invoice_sent user_id plan_key
              (update_pending_status Approved user_id plan_key
                 (insert_subscription user_id plan_key (clock e 1)
                    (clock e 0 + timedelta_days 30) (db w))))"
proof -
  note defs = approve_payment_def finish_approval_def send_invoice_with_links_def
    deliver_invoice_def emit_def Let_def add_user_to_channel_def w'_def
  note frame = active_server_plan_unchanged get_channels_from_db_unchanged
  show "fst (approve_payment e user (a0 # plan_key # rest) w) = Inr ()"
    using admin uid fits key found by (simp add: defs frame)
  show "trace w' = trace w
          @ [UnbanChatMember (i_channel_id channel_info) user_id]
          @ (if unban_raises e (i_channel_id channel_info) user_id
             then [LogError FailedToAddUserToChannel] else [])
          @ [SendMessage user_id
               (InvoiceChannel (i_name channel_info) (i_price channel_info)
                  (clock e 2 + timedelta_days 30) (i_invite_link channel_info))]
          @ (if send_message_raises e user_id then [LogError (FailedToSendInvoice user_id)] else [])
          @ [Reply (PaymentApproved user_id (i_name channel_info) (i_price channel_info)
                      (clock e 0 + timedelta_days 30))]"
    using admin uid fits key found by (simp add: defs frame)
  show "db w' =
      (if send_message_raises e user_id
       then update_pending_status Approved user_id plan_key
              (insert_subscription user_id plan_key (clock e 1)
                 (clock e 0 + timedelta_days 30) (db w))
       else mark_invoice_sent user_id plan_key
              (update_pending_status Approved user_id plan_key
                 (insert_subscription user_id plan_key (clock e 1)
                    (clock e 0 + timedelta_days 30) (db w))))"
    using admin uid fits key found by (simp add: defs frame)
qed

text \<open>Both kinds of plan together, for a plan that \<open>plan_info\<close> finds.\<close>

lemma approve_payment_offered:
  fixes rest :: "string list"
  assumes admin: "user_id_of user \<in> set (ADMIN_IDS e)"
    and uid: "py_int a0 = Some user_id"
    and fits: "sqlite_integer user_id"
    and offered: "plan_info (db w) plan_key = Some (plan_name, plan_price)"
  defines "w' \<equiv> snd (approve_payment e user (a0 # plan_key # rest) w)"
  shows "fst (approve_payment e user (a0 # plan_key # rest) w) = Inr ()"
    and "last (trace w') = Reply (PaymentApproved user_id plan_name plan_price
                                    (clock e 0 + timedelta_days 30))"
    and "db w' =
      (if send_message_raises e user_id
       then update_pending_status Approved user_id plan_key
              (insert_subscription user_id plan_key (clock e 1)
                 (clock e 0 + timedelta_days 30) (db w))
       else mark_invoice_sent user_id plan_key
              (update_pending_status Approved user_id plan_key
                 (insert_subscription user_id plan_key (clock e 1)
                    (clock e 0 + timedelta_days 30) (db w))))"
proof -
  consider (server) server_plan where "plan_key = ''server_premium''"
      "active_server_plan (db w) = Some server_plan"
      "plan_name = sp_plan_name server_plan" "plan_price = sp_price server_plan"
    | (channel) channel_info where "plan_key \<noteq> ''server_premium''"
      "map_of (get_channels_from_db (db w)) plan_key = Some channel_info"
      "plan_name = i_name channel_info" "plan_price = i_price channel_info"
    using offered by (auto simp: plan_info_def split: if_splits)
  then have "fst (approve_payment e user (a0 # plan_key # rest) w) = Inr ()
    \<and> last (trace w') = Reply (PaymentApproved user_id plan_name plan_price
                                    (clock e 0 + timedelta_days 30))
    \<and> db w' =
      (if send_message_raises e user_id
       then update_pending_status Approved user_id plan_key
              (insert_subscription user_id plan_key (clock e 1)
                 (clock e 0 + timedelta_days 30) (db w))
       else mark_invoice_sent user_id plan_key
              (update_pending_status Approved user_id plan_key
                 (insert_subscription user_id plan_key (clock e 1)
                    (clock e 0 + timedelta_days 30) (db w))))"
  proof cases
    case server
    show ?thesis
      using approve_payment_server_premium [OF admin uid fits server(2), of rest]
      unfolding w'_def server(1,3,4) by simp
  next
    case channel
    show ?thesis
      using approve_payment_channel [OF admin uid fits channel(1,2), of rest]
      unfolding w'_def channel(3,4) by simp
  qed
  then show "fst (approve_payment e user (a0 # plan_key # rest) w) = Inr ()"
    and "last (trace w') = Reply (PaymentApproved user_id plan_name plan_price
                                    (clock e 0 + timedelta_days 30))"
    and "db w' =
      (if send_message_raises e user_id
       then update_pending_status Approved user_id plan_key
              (insert_subscription user_id plan_key (clock e 1)
                 (clock e 0 + timedelta_days 30) (db w))
       else mark_invoice_sent user_id plan_key
              (update_pending_status Approved user_id plan_key
                 (insert_subscription user_id plan_key (clock e 1)
                    (clock e 0 + timedelta_days 30) (db w))))"
    by blast+
qed

text \<open>What the store operations of an approval do to the tables.\<close>

lemma length_filter_map_same:
  "(\<And>x. P (f x) = P x) \<Longrightarrow> length (filter (P \<circ> f) xs) = length (filter P xs)"
  by (induction xs) auto

lemma approval_store_subscriptions:
  "length (subscriptions (mark_invoice_sent u k d)) = length (subscriptions d)"
  "length (subscriptions_of u' k' (mark_invoice_sent u k d)) = length (subscriptions_of u' k' d)"
  "subscriptions (update_pending_status st u k d) = subscriptions d"
  "subscriptions_of u' k' (update_pending_status st u k d) = subscriptions_of u' k' d"
  "subscriptions (insert_subscription u k s t d) = subscriptions d @
     [\<lparr>s_user_id = u, s_channel_key = k, s_start_date = s, s_end_date = t,
       s_is_active = True, s_payment_confirmed = True, s_invoice_sent = False\<rparr>]"
  "length (subscriptions_of u k (insert_subscription u k s t d))
     = Suc (length (subscriptions_of u k d))"
proof -
  show "length (subscriptions (mark_invoice_sent u k d)) = length (subscriptions d)"
    by (simp add: mark_invoice_sent_def)
  show "length (subscriptions_of u' k' (mark_invoice_sent u k d)) = length (subscriptions_of u' k' d)"
    by (simp add: subscriptions_of_def mark_invoice_sent_def length_filter_map_same)
  show "subscriptions (update_pending_status st u k d) = subscriptions d"
    by (simp add: update_pending_status_def)
  show "subscriptions_of u' k' (update_pending_status st u k d) = subscriptions_of u' k' d"
    by (simp add: subscriptions_of_def update_pending_status_def)
  show "subscriptions (insert_subscription u k s t d) = subscriptions d @
     [\<lparr>s_user_id = u, s_channel_key = k, s_start_date = s, s_end_date = t,
       s_is_active = True, s_payment_confirmed = True, s_invoice_sent = False\<rparr>]"
    by (simp add: insert_subscription_def)
  show "length (subscriptions_of u k (insert_subscription u k s t d))
     = Suc (length (subscriptions_of u k d))"
    by (simp add: subscriptions_of_def insert_subscription_def)
qed

lemma approval_store_pending:
  "pending_payments (mark_invoice_sent u k d) = pending_payments d"
  "pending_payments (insert_subscription u k s t d) = pending_payments d"
  by (simp_all add: mark_invoice_sent_def insert_subscription_def)

lemma plan_info_unchanged:
  "plan_info (insert_subscription u k s t d) key = plan_info d key"
  "plan_info (update_pending_status st u k d) key = plan_info d key"
  "plan_info (mark_invoice_sent u k d) key = plan_info d key"
  "plan_info (insert_pending u k a t d) key = plan_info d key"
  "plan_info (update_pending_proof f u k d) key = plan_info d key"
  by (simp_all add: plan_info_def get_channels_from_db_unchanged active_server_plan_unchanged)

lemma approve_payment_overflow:
  fixes rest :: "string list"
  assumes admin: "user_id_of user \<in> set (ADMIN_IDS e)"
    and uid: "py_int a0 = Some user_id"
    and large: "\<not> sqlite_integer user_id"
    and offered: "plan_info (db w) plan_key = Some (plan_name, plan_price)"
  shows "approve_payment e user (a0 # plan_key # rest) w
     = (Inr (), emit (Reply (ErrorApproving OverflowError)) w)"
  using assms by (auto simp: approve_payment_def plan_info_def Let_def split: if_splits)

lemma user_id_of_fits: "sqlite_integer (user_id_of user)"
  unfolding sqlite_integer_def user_id_of_def
  using sint_ge [of "tu_id user"] sint_lt [of "tu_id user"] by simp

lemma approve_payment_not_offered:
  fixes rest :: "string list"
  assumes admin: "user_id_of user \<in> set (ADMIN_IDS e)"
    and uid: "py_int a0 = Some user_id"
    and missing: "plan_info (db w) plan_key = None"
  shows "approve_payment e user (a0 # plan_key # rest) w
     = (Inr (), emit (Reply (if plan_key = ''server_premium'' then ServerPlanNotFound
                             else ChannelNotFound)) w)"
  using assms by (auto simp: approve_payment_def plan_info_def Let_def split: option.splits)

lemma example_ids:
  "sqlite_integer 42"
  "\<not> sqlite_integer 9223372036854775808"
  "py_int ''9223372036854775808'' = Some 9223372036854775808"
proof -
  show "sqlite_integer 42"
    by (simp add: sqlite_integer_def)
  show "\<not> sqlite_integer 9223372036854775808"
    by (simp add: sqlite_integer_def)
  show "py_int ''9223372036854775808'' = Some 9223372036854775808"
    by (simp add: py_int_def strip_def is_space_def sign_split_def digitpart_def digit_of_def)
qed

lemma example_facts:
  "py_int ''42'' = Some 42"
  "user_id_of admin \<in> set (ADMIN_IDS example_env)"
  "user_id_of admin \<in> set (ADMIN_IDS failing_env)"
  "plan_info (db shop_world) ''vip_content'' = Some (''VIP Content'', Finite 200)"
  "get_channels_from_db (db shop_world) = [(''vip_content'', info_of vip_row)]"
  "get_channels_from_db (db two_channel_world)
     = [(''vip_content'', info_of vip_row), (''movies'', info_of movies_row)]"
  "active_server_plan (db shop_world)
     = Some \<lparr>sp_plan_name = ''Server Premium'', sp_price = Finite 599,
              sp_included_channels = ''[]'', sp_is_active = True, sp_created_date = 0\<rparr>"
  "active_server_plan (db two_channel_world)
     = Some \<lparr>sp_plan_name = ''Server Premium'', sp_price = Finite 599,
              sp_included_channels = ''[]'', sp_is_active = True, sp_created_date = 0\<rparr>"
proof -
  show "py_int ''42'' = Some 42"
    by code_simp
  show "user_id_of admin \<in> set (ADMIN_IDS example_env)"
    by (simp add: admin_def example_env_def user_id_of_def)
  show "user_id_of admin \<in> set (ADMIN_IDS failing_env)"
    by (simp add: admin_def example_env_def failing_env_def user_id_of_def)
  show dict: "get_channels_from_db (db shop_world) = [(''vip_content'', info_of vip_row)]"
    by (simp add: get_channels_from_db_def shop_world_def vip_row_def)
  show "plan_info (db shop_world) ''vip_content'' = Some (''VIP Content'', Finite 200)"
    by (simp add: plan_info_def dict info_of_def vip_row_def)
  show "get_channels_from_db (db two_channel_world)
     = [(''vip_content'', info_of vip_row), (''movies'', info_of movies_row)]"
    by (simp add: get_channels_from_db_def two_channel_world_def vip_row_def movies_row_def)
  show "active_server_plan (db shop_world)
     = Some \<lparr>sp_plan_name = ''Server Premium'', sp_price = Finite 599,
              sp_included_channels = ''[]'', sp_is_active = True, sp_created_date = 0\<rparr>"
    by (simp add: active_server_plan_def shop_world_def setup_database_def empty_database_def)
  show "active_server_plan (db two_channel_world)
     = Some \<lparr>sp_plan_name = ''Server Premium'', sp_price = Finite 599,
              sp_included_channels = ''[]'', sp_is_active = True, sp_created_date = 0\<rparr>"
    by (simp add: active_server_plan_def two_channel_world_def setup_database_def
          empty_database_def)
qed

section \<open>Facts about checkout and proof submission\<close>

lemma notify_admins_db: "db (notify_admins e file_id caption admins w) = db w"
  by (induction admins arbitrary: w) (auto simp: emit_def)

lemma initiate_purchase_offered:
  assumes "plan_info (db w) plan_key = Some (plan_name, plan_price)"
  shows "initiate_purchase e user (''purchase_'' @ plan_key) ud w
     = (Inr (), ud\<lparr>awaiting_payment := Some plan_key\<rparr>,
        emit (EditMarkup (PurchaseText plan_name plan_price)
                [[InlineKeyboardButton BackToPlans (CallbackData ''show_plans'')]])
          (w\<lparr>db := insert_pending (user_id_of user) plan_key plan_price (clock e 0) (db w)\<rparr>))"
proof -
  have key: "index (split_first (CHR ''_'') (''purchase_'' @ plan_key)) 1 = Inr plan_key"
    by (rule initiate_purchase_reads_whole_key)
  show ?thesis
    using assms unfolding initiate_purchase_def key
    by (auto simp: plan_info_def purchase_prompt_def split: if_splits)
qed

text \<open>
  \<open>handle_payment_proof\<close> goes on to the store when the session names a plan that is
  \<open>server_premium\<close> or a key of the channel dictionary and the message carries a file.
\<close>

lemma handle_payment_proof_accepted:
  assumes marker: "awaiting_payment ud = Some plan_key"
    and known: "plan_key = ''server_premium''
                 \<or> map_of (get_channels_from_db (db w)) plan_key \<noteq> None"
    and attached: "(if photo \<noteq> [] then Some (last photo) else document) = Some file_id"
  shows "fst (handle_payment_proof e user photo document ud w) = Inr ()"
    and "fst (snd (handle_payment_proof e user photo document ud w))
           = ud\<lparr>awaiting_payment := None\<rparr>"
    and "db (snd (snd (handle_payment_proof e user photo document ud w)))
           = update_pending_proof file_id (user_id_of user) plan_key (db w)"
  using assms
  by (auto simp: handle_payment_proof_def submit_proof_def notify_admins_db emit_def
        split: option.splits)

lemma plan_info_known:
  "plan_info d plan_key = Some (plan_name, plan_price) \<Longrightarrow>
     plan_key = ''server_premium'' \<or> map_of (get_channels_from_db d) plan_key \<noteq> None"
  by (auto simp: plan_info_def split: if_splits)

text \<open>How the two store operations change the number of rows in a status.\<close>

lemma insert_pending_counts:
  "payments_in Pending u k (insert_pending u k a t d)
     = payments_in Pending u k d @
       [\<lparr>p_user_id = u, p_channel_key = k, p_amount = a, p_payment_proof = None,
         p_timestamp = t, p_status = Pending\<rparr>]"
  "payments_in Submitted u k (insert_pending u k a t d) = payments_in Submitted u k d"
  by (simp_all add: payments_in_def insert_pending_def)

lemma submitted_after_proof:
  "length (filter (\<lambda>p. p_user_id p = u \<and> p_channel_key p = k \<and> p_status p = Submitted)
      (map (\<lambda>p. if p_user_id p = u \<and> p_channel_key p = k \<and> p_status p = Pending
                  then p\<lparr>p_payment_proof := Some f, p_status := Submitted\<rparr> else p) rows))
   = length (filter (\<lambda>p. p_user_id p = u \<and> p_channel_key p = k \<and> p_status p = Submitted) rows)
     + length (filter (\<lambda>p. p_user_id p = u \<and> p_channel_key p = k \<and> p_status p = Pending) rows)"
proof (induction rows)
  case Nil
  then show ?case by simp
next
  case (Cons p rows)
  show ?case
  proof (cases "p_user_id p = u \<and> p_channel_key p = k \<and> p_status p = Pending")
    case True
    then show ?thesis using Cons.IH by simp
  next
    case False
    then show ?thesis using Cons.IH by (cases "p_status p") auto
  qed
qed

lemma pending_after_proof:
  "filter (\<lambda>p. p_user_id p = u \<and> p_channel_key p = k \<and> p_status p = Pending)
      (map (\<lambda>p. if p_user_id p = u \<and> p_channel_key p = k \<and> p_status p = Pending
                  then p\<lparr>p_payment_proof := Some f, p_status := Submitted\<rparr> else p) rows)
   = []"
  by (induction rows) auto

lemma update_pending_proof_counts:
  "payments_in Pending u k (update_pending_proof f u k d) = []"
  "length (payments_in Submitted u k (update_pending_proof f u k d))
     = length (payments_in Submitted u k d) + length (payments_in Pending u k d)"
proof -
  have sel: "\<And>rows. pending_payments (d\<lparr>pending_payments := rows\<rparr>) = rows"
    by simp
  show "payments_in Pending u k (update_pending_proof f u k d) = []"
    unfolding payments_in_def update_pending_proof_def sel by (rule pending_after_proof)
  show "length (payments_in Submitted u k (update_pending_proof f u k d))
     = length (payments_in Submitted u k d) + length (payments_in Pending u k d)"
    unfolding payments_in_def update_pending_proof_def sel by (rule submitted_after_proof)
qed

lemma checkout_offered:
  assumes "plan_info (db (snd s)) plan_key = Some (plan_name, plan_price)"
  shows "fst (checkout e user plan_key s) = (fst s)\<lparr>awaiting_payment := Some plan_key\<rparr>"
    and "db (snd (checkout e user plan_key s))
           = insert_pending (user_id_of user) plan_key plan_price (clock e 0) (db (snd s))"
  using initiate_purchase_offered [OF assms, of e user "fst s"]
  by (simp_all add: checkout_def emit_def)

lemma submit_accepted:
  assumes "awaiting_payment (fst s) = Some plan_key"
    and "plan_info (db (snd s)) plan_key = Some (plan_name, plan_price)"
  shows "fst (submit e user file_id s) = (fst s)\<lparr>awaiting_payment := None\<rparr>"
    and "db (snd (submit e user file_id s))
           = update_pending_proof file_id (user_id_of user) plan_key (db (snd s))"
proof -
  have known: "plan_key = ''server_premium''
      \<or> map_of (get_channels_from_db (db (snd s))) plan_key \<noteq> None"
    using assms(2) by (rule plan_info_known)
  have attached: "(if [file_id] \<noteq> [] then Some (last [file_id]) else None) = Some file_id"
    by simp
  note run = handle_payment_proof_accepted [OF assms(1) known attached, of e user]
  show "fst (submit e user file_id s) = (fst s)\<lparr>awaiting_payment := None\<rparr>"
    using run(2) by (simp add: submit_def)
  show "db (snd (submit e user file_id s))
           = update_pending_proof file_id (user_id_of user) plan_key (db (snd s))"
    using run(3) by (simp add: submit_def)
qed

section \<open>Facts about rejection\<close>

lemma reject_payment_run:
  fixes reason_words :: "string list"
  assumes admin: "user_id_of user \<in> set (ADMIN_IDS e)"
    and uid: "py_int a0 = Some user_id"
    and fits: "sqlite_integer user_id"
  shows "reject_payment e user (a0 # plan_key # reason_words) w
     = (Inr (),
        w\<lparr>db := update_pending_status Rejected user_id plan_key (db w),
           trace := trace w
             @ [SendMessage user_id
                  (RejectNotice (if reason_words = [] then ''Payment verification failed''
                                 else join_space reason_words))]
             @ (if send_message_raises e user_id then [LogError FailedToNotifyUser] else [])
             @ [Reply (PaymentRejected user_id)]\<rparr>)"
  using admin uid fits
  by (cases reason_words) (simp_all add: reject_payment_def emit_def Let_def)

lemma reject_payment_overflow:
  fixes reason_words :: "string list"
  assumes admin: "user_id_of user \<in> set (ADMIN_IDS e)"
    and uid: "py_int a0 = Some user_id"
    and large: "\<not> sqlite_integer user_id"
  shows "reject_payment e user (a0 # plan_key # reason_words) w
     = (Inr (), emit (Reply (ErrorRejecting OverflowError)) w)"
  using assms by (simp add: reject_payment_def)

lemma update_pending_status_none_submitted:
  assumes "payments_in Submitted user_id plan_key d = []"
  shows "update_pending_status new_status user_id plan_key d = d"
proof -
  have "map (\<lambda>p. if p_user_id p = user_id \<and> p_channel_key p = plan_key \<and> p_status p = Submitted
                  then p\<lparr>p_status := new_status\<rparr> else p) (pending_payments d)
      = pending_payments d"
    using assms by (intro map_idI) (auto simp: payments_in_def filter_empty_conv)
  then show ?thesis
    by (simp add: update_pending_status_def)
qed

section \<open>Facts about checkout, proof and approval in sequence\<close>

lemma purchase_store_subscriptions:
  "subscriptions (insert_pending u k a t d) = subscriptions d"
  "subscriptions (update_pending_proof f u k d) = subscriptions d"
  "subscriptions_of u' k' (insert_pending u k a t d) = subscriptions_of u' k' d"
  "subscriptions_of u' k' (update_pending_proof f u k d) = subscriptions_of u' k' d"
  by (simp_all add: subscriptions_of_def insert_pending_def update_pending_proof_def)

lemma last_subscription_approved:
  "last (subscriptions (update_pending_status st u k (insert_subscription u k s t d)))
     = \<lparr>s_user_id = u, s_channel_key = k, s_start_date = s, s_end_date = t,
        s_is_active = True, s_payment_confirmed = True, s_invoice_sent = False\<rparr>"
  "last (subscriptions (mark_invoice_sent u k
           (update_pending_status st u k (insert_subscription u k s t d))))
     = \<lparr>s_user_id = u, s_channel_key = k, s_start_date = s, s_end_date = t,
        s_is_active = True, s_payment_confirmed = True, s_invoice_sent = True\<rparr>"
  by (simp_all add: update_pending_status_def insert_subscription_def mark_invoice_sent_def)

lemma last_pending_approved:
  "last (pending_payments (update_pending_status Approved u k (insert_subscription u k s t
           (update_pending_proof f u k (insert_pending u k a ts d)))))
     = \<lparr>p_user_id = u, p_channel_key = k, p_amount = a, p_payment_proof = Some f,
        p_timestamp = ts, p_status = Approved\<rparr>"
  by (simp add: update_pending_status_def insert_subscription_def update_pending_proof_def
        insert_pending_def)

lemma checkout_submit_approve_run:
  fixes e1 e2 e3 :: env and file_id :: string and ud :: user_data
  assumes offered: "plan_info (db w) plan_key = Some (plan_name, plan_price)"
    and admin: "user_id_of admin_user \<in> set (ADMIN_IDS e3)"
    and uid: "py_int user_id_text = Some (user_id_of buyer_user)"
  defines "w' \<equiv> checkout_submit_approve e1 e2 e3 buyer_user admin_user plan_key file_id
                   user_id_text ud w"
  defines "stored \<equiv> update_pending_status Approved (user_id_of buyer_user) plan_key
             (insert_subscription (user_id_of buyer_user) plan_key (clock e3 1)
                (clock e3 0 + timedelta_days 30)
                (update_pending_proof file_id (user_id_of buyer_user) plan_key
                   (insert_pending (user_id_of buyer_user) plan_key plan_price (clock e1 0) (db w))))"
  shows "db w' = (if send_message_raises e3 (user_id_of buyer_user) then stored
                  else mark_invoice_sent (user_id_of buyer_user) plan_key stored)"
    and "last (trace w') = Reply (PaymentApproved (user_id_of buyer_user) plan_name plan_price
                                    (clock e3 0 + timedelta_days 30))"
proof -
  let ?s1 = "checkout e1 buyer_user plan_key (ud, w)"
  let ?s2 = "submit e2 buyer_user file_id ?s1"
  have info0: "plan_info (db (snd (ud, w))) plan_key = Some (plan_name, plan_price)"
    by (simp add: offered)
  note c1 = checkout_offered [OF info0, of e1 buyer_user]
  have marker: "awaiting_payment (fst ?s1) = Some plan_key"
    by (simp add: c1(1))
  have info1: "plan_info (db (snd ?s1)) plan_key = Some (plan_name, plan_price)"
    by (simp add: c1(2) plan_info_unchanged offered)
  note c2 = submit_accepted [OF marker info1, of e2 buyer_user file_id]
  have info2: "plan_info (db (snd ?s2)) plan_key = Some (plan_name, plan_price)"
    by (simp add: c2(2) c1(2) plan_info_unchanged offered)
  note run = approve_payment_offered [OF admin uid user_id_of_fits info2, of "[]"]
  have w'_eq: "w' = snd (approve_payment e3 admin_user [user_id_text, plan_key] (snd ?s2))"
    by (simp add: w'_def checkout_submit_approve_def)
  have db2: "db (snd ?s2) = update_pending_proof file_id (user_id_of buyer_user) plan_key
               (insert_pending (user_id_of buyer_user) plan_key plan_price (clock e1 0) (db w))"
    by (simp add: c2(2) c1(2))
  show "db w' = (if send_message_raises e3 (user_id_of buyer_user) then stored
                  else mark_invoice_sent (user_id_of buyer_user) plan_key stored)"
    unfolding w'_eq run(3) stored_def db2 by (rule refl)
  show "last (trace w') = Reply (PaymentApproved (user_id_of buyer_user) plan_name plan_price
                                    (clock e3 0 + timedelta_days 30))"
    unfolding w'_eq by (rule run(2))
qed

section \<open>Approval and the state of the pending payment\<close>

text \<open>
  C1, as the code has it. \<open>approve_payment\<close> never reads the pending payments. Run
  by an administrator with a user id that parses, for a plan that exists (an active
  channel, or \<open>server_premium\<close> with an active plan row): when the user id fits a 64-bit
  integer it reports success and adds one Subscription row for the user and the plan,
  whatever the pending payments are; the pending payments of that user and plan that
  are \<open>submitted\<close> become \<open>approved\<close>, and there may be none. When the user id does not
  fit, the store refuses it: the administrator gets the error and nothing is stored.
  For a plan that does not exist the answer is that the plan was not found, and the
  store stays as it was.
\<close>

theorem approve_payment_ignores_pending_status:
  fixes rest :: "string list" and plan_key :: string and w :: world
  assumes admin: "user_id_of user \<in> set (ADMIN_IDS e)"
    and uid: "py_int a0 = Some user_id"
  defines "w' \<equiv> snd (approve_payment e user (a0 # plan_key # rest) w)"
  shows "(\<forall>plan_name plan_price.
            plan_info (db w) plan_key = Some (plan_name, plan_price) \<and> sqlite_integer user_id \<longrightarrow>
              fst (approve_payment e user (a0 # plan_key # rest) w) = Inr ()
            \<and> last (trace w') = Reply (PaymentApproved user_id plan_name plan_price
                                          (clock e 0 + timedelta_days 30))
            \<and> length (subscriptions (db w')) = length (subscriptions (db w)) + 1
            \<and> length (subscriptions_of user_id plan_key (db w'))
                = length (subscriptions_of user_id plan_key (db w)) + 1
            \<and> pending_payments (db w')
                = map (\<lambda>p. if p_user_id p = user_id \<and> p_channel_key p = plan_key
                                 \<and> p_status p = Submitted
                             then p\<lparr>p_status := Approved\<rparr> else p)
                    (pending_payments (db w)))
    \<and> (plan_info (db w) plan_key \<noteq> None \<and> \<not> sqlite_integer user_id \<longrightarrow>
          db w' = db w
        \<and> trace w' = trace w @ [Reply (ErrorApproving OverflowError)])
    \<and> (plan_info (db w) plan_key = None \<longrightarrow>
          db w' = db w
        \<and> trace w' = trace w @ [Reply (if plan_key = ''server_premium'' then ServerPlanNotFound
                                         else ChannelNotFound)])"
proof -
  have offered: "fst (approve_payment e user (a0 # plan_key # rest) w) = Inr ()
            \<and> last (trace w') = Reply (PaymentApproved user_id plan_name plan_price
                                          (clock e 0 + timedelta_days 30))
            \<and> length (subscriptions (db w')) = length (subscriptions (db w)) + 1
            \<and> length (subscriptions_of user_id plan_key (db w'))
                = length (subscriptions_of user_id plan_key (db w)) + 1
            \<and> pending_payments (db w')
                = map (\<lambda>p. if p_user_id p = user_id \<and> p_channel_key p = plan_key
                                 \<and> p_status p = Submitted
                             then p\<lparr>p_status := Approved\<rparr> else p)
                    (pending_payments (db w))"
    if plan: "plan_info (db w) plan_key = Some (plan_name, plan_price)"
      and fits: "sqlite_integer user_id"
    for plan_name plan_price
  proof -
    note run = approve_payment_offered [OF admin uid fits plan, of rest, folded w'_def]
    have subs: "length (subscriptions (db w')) = length (subscriptions (db w)) + 1"
      by (simp add: run(3) approval_store_subscriptions)
    have own: "length (subscriptions_of user_id plan_key (db w'))
        = length (subscriptions_of user_id plan_key (db w)) + 1"
      by (simp add: run(3) approval_store_subscriptions)
    have pend: "pending_payments (db w')
        = map (\<lambda>p. if p_user_id p = user_id \<and> p_channel_key p = plan_key
                         \<and> p_status p = Submitted
                     then p\<lparr>p_status := Approved\<rparr> else p)
            (pending_payments (db w))"
      by (simp add: run(3) approval_store_pending)
         (simp add: update_pending_status_def approval_store_pending)
    show ?thesis
      using run(1,2) subs own pend by blast
  qed
  have refused: "db w' = db w \<and> trace w' = trace w @ [Reply (ErrorApproving OverflowError)]"
    if some: "plan_info (db w) plan_key \<noteq> None" and large: "\<not> sqlite_integer user_id"
  proof -
    obtain plan_name plan_price where plan:
      "plan_info (db w) plan_key = Some (plan_name, plan_price)"
      using some by (cases "plan_info (db w) plan_key") auto
    show ?thesis
      unfolding w'_def approve_payment_overflow [OF admin uid large plan]
      by (simp add: emit_def)
  qed
  have missing: "db w' = db w
        \<and> trace w' = trace w @ [Reply (if plan_key = ''server_premium'' then ServerPlanNotFound
                                         else ChannelNotFound)]"
    if none: "plan_info (db w) plan_key = None"
    unfolding w'_def approve_payment_not_offered [OF admin uid none]
    by (simp add: emit_def)
  show ?thesis
    using offered refused missing by blast
qed

theorem approve_payment_ignores_pending_status_witness:
  "fst (approve_payment example_env admin [''42'', ''vip_content''] shop_world) = Inr ()
   \<and> length (subscriptions_of 42 ''vip_content''
        (db (snd (approve_payment example_env admin [''42'', ''vip_content''] shop_world))))
       = length (subscriptions_of 42 ''vip_content'' (db shop_world)) + 1
   \<and> db (snd (approve_payment example_env admin [''9223372036854775808'', ''vip_content'']
                 shop_world)) = db shop_world
   \<and> db (snd (approve_payment example_env admin [''42'', ''ghost''] shop_world)) = db shop_world"
proof -
  have ghost: "plan_info (db shop_world) ''ghost'' = None"
    by (simp add: plan_info_def example_facts)
  have known: "plan_info (db shop_world) ''vip_content'' \<noteq> None"
    by (simp add: example_facts(4))
  show ?thesis
    using approve_payment_ignores_pending_status
            [OF example_facts(2) example_facts(1),
              where plan_key = "''vip_content''" and rest = "[]" and w = shop_world]
          approve_payment_ignores_pending_status
            [OF example_facts(2) example_ids(3),
              where plan_key = "''vip_content''" and rest = "[]" and w = shop_world]
          approve_payment_ignores_pending_status
            [OF example_facts(2) example_facts(1),
              where plan_key = "''ghost''" and rest = "[]" and w = shop_world]
          example_facts(4) ghost known example_ids(1,2)
    by blast
qed

text \<open>
  C1 as stated fails. In a store with no pending payment at all, an approval for the
  buyer and the channel succeeds and stores a Subscription; the same approval run again
  succeeds again and stores a second one.
\<close>

theorem approve_payment_twice_two_subscriptions:
  "pending_payments (db shop_world) = []
   \<and> subscriptions (db shop_world) = []
   \<and> fst (approve_payment example_env admin [''42'', ''vip_content''] shop_world) = Inr ()
   \<and> last (trace (snd (approve_payment example_env admin [''42'', ''vip_content''] shop_world)))
       = Reply (PaymentApproved 42 ''VIP Content'' (Finite 200)
                  (clock example_env 0 + timedelta_days 30))
   \<and> length (subscriptions
        (db (snd (approve_payment example_env admin [''42'', ''vip_content''] shop_world)))) = 1
   \<and> fst (approve_payment example_env admin [''42'', ''vip_content'']
        (snd (approve_payment example_env admin [''42'', ''vip_content''] shop_world))) = Inr ()
   \<and> length (subscriptions
        (db (snd (approve_payment example_env admin [''42'', ''vip_content'']
          (snd (approve_payment example_env admin [''42'', ''vip_content''] shop_world)))))) = 2"
proof -
  let ?w1 = "snd (approve_payment example_env admin [''42'', ''vip_content''] shop_world)"
  let ?w2 = "snd (approve_payment example_env admin [''42'', ''vip_content''] ?w1)"
  note first = approve_payment_offered
      [OF example_facts(2) example_facts(1) example_ids(1) example_facts(4), of "[]"]
  have empty: "pending_payments (db shop_world) = [] \<and> subscriptions (db shop_world) = []"
    by (simp add: shop_world_def setup_database_def empty_database_def)
  have one: "length (subscriptions (db ?w1)) = 1"
    by (simp add: first(3) approval_store_subscriptions empty)
  have again: "plan_info (db ?w1) ''vip_content'' = Some (''VIP Content'', Finite 200)"
    by (simp add: first(3) plan_info_unchanged example_facts(4))
  note second = approve_payment_offered
      [OF example_facts(2) example_facts(1) example_ids(1) again, of "[]"]
  have two: "length (subscriptions (db ?w2)) = 2"
    by (simp add: second(3) approval_store_subscriptions one)
  show ?thesis
    using empty first(1,2) one second(1) two by blast
qed

section \<open>Decoding the payload of a plan button\<close>

text \<open>
  What \<open>plan_selected\<close> does with the payload \<open>plan_<key>\<close> of a key that holds an
  underscore: it looks up the part of the key before its first underscore. Unless that
  part is itself the key of an active channel, or is \<open>server\<close>, the buyer is told the
  plan is no longer available.
\<close>

lemma plan_selected_underscore_key:
  assumes "CHR ''_'' \<in> set key"
    and "takeWhile (\<lambda>c. c \<noteq> CHR ''_'') key \<noteq> ''server''"
    and "map_of (get_channels_from_db (db w)) (takeWhile (\<lambda>c. c \<noteq> CHR ''_'') key) = None"
  shows "plan_selected e (''plan_'' @ key) w = (Inr (), emit (EditMessage PlanNoLongerAvailable) w)"
  using assms unfolding plan_selected_def plan_selected_reads_first_token by simp

text \<open>
  C2 fails on the code. With the channel "VIP Content" active under the key
  \<open>vip_content\<close>, the payload that \<open>get_plans_keyboard\<close> builds for it outside an event
  loop is \<open>plan_vip_content\<close>; \<open>plan_selected\<close> splits that payload at every
  underscore, looks up \<open>vip\<close> and answers that the plan is no longer available, also
  when reached through \<open>button_callback\<close>. \<open>initiate_purchase\<close> splits at the first
  underscore only and finds the channel under \<open>vip_content\<close>.
\<close>

theorem plan_selected_loses_key_with_underscore:
  "map_of (get_channels_from_db (db shop_world)) ''vip_content'' = Some (info_of vip_row)
   \<and> get_plans_keyboard False (db shop_world)
       = [[InlineKeyboardButton (ChannelLabel ''VIP Content'' (Finite 200))
             (CallbackData ''plan_vip_content'')],
          [InlineKeyboardButton (ServerLabel ''Server Premium'' (Finite 599))
             (CallbackData ''plan_server_premium'')],
          [InlineKeyboardButton BackToMainMenu (CallbackData ''main_menu'')]]
   \<and> index (split_on (CHR ''_'') ''plan_vip_content'') 1 = Inr ''vip''
   \<and> plan_selected example_env ''plan_vip_content'' shop_world
       = (Inr (), emit (EditMessage PlanNoLongerAvailable) shop_world)
   \<and> button_callback example_env buyer ''plan_vip_content'' empty_session shop_world
       = (Inr (), empty_session, emit (EditMessage PlanNoLongerAvailable) shop_world)
   \<and> index (split_first (CHR ''_'') ''purchase_vip_content'') 1 = Inr ''vip_content''
   \<and> fst (snd (initiate_purchase example_env buyer ''purchase_vip_content'' empty_session
        shop_world)) = empty_session\<lparr>awaiting_payment := Some ''vip_content''\<rparr>"
proof -
  have dict: "get_channels_from_db (db shop_world) = [(''vip_content'', info_of vip_row)]"
    by (simp add: get_channels_from_db_def shop_world_def vip_row_def)
  have plan: "active_server_plan (db shop_world)
      = Some \<lparr>sp_plan_name = ''Server Premium'', sp_price = Finite 599,
               sp_included_channels = ''[]'', sp_is_active = True, sp_created_date = 0\<rparr>"
    by (simp add: active_server_plan_def shop_world_def setup_database_def empty_database_def)
  have info: "i_name (info_of vip_row) = ''VIP Content'' \<and> i_price (info_of vip_row) = Finite 200"
    by (simp add: info_of_def vip_row_def)
  have token: "index (split_on (CHR ''_'') ''plan_vip_content'') 1 = Inr ''vip''"
    by (simp add: index_def)
  have whole: "index (split_first (CHR ''_'') ''purchase_vip_content'') 1 = Inr ''vip_content''"
    by (simp add: index_def split_first_def)
  have found: "map_of (get_channels_from_db (db shop_world)) ''vip_content'' = Some (info_of vip_row)"
    by (simp add: dict)
  have keyboard: "get_plans_keyboard False (db shop_world)
       = [[InlineKeyboardButton (ChannelLabel ''VIP Content'' (Finite 200))
             (CallbackData ''plan_vip_content'')],
          [InlineKeyboardButton (ServerLabel ''Server Premium'' (Finite 599))
             (CallbackData ''plan_server_premium'')],
          [InlineKeyboardButton BackToMainMenu (CallbackData ''main_menu'')]]"
    by (simp add: get_plans_keyboard_def dict plan info)
  have selected: "plan_selected example_env ''plan_vip_content'' shop_world
       = (Inr (), emit (EditMessage PlanNoLongerAvailable) shop_world)"
    unfolding plan_selected_def token by (simp add: dict)
  have routed: "button_callback example_env buyer ''plan_vip_content'' empty_session shop_world
       = (Inr (), empty_session, emit (EditMessage PlanNoLongerAvailable) shop_world)"
    by (simp add: button_callback_def startswith_def selected)
  have purchase: "fst (snd (initiate_purchase example_env buyer ''purchase_vip_content''
        empty_session shop_world)) = empty_session\<lparr>awaiting_payment := Some ''vip_content''\<rparr>"
    unfolding initiate_purchase_def whole by (simp add: dict purchase_prompt_def)
  show ?thesis
    using found keyboard token selected routed whole purchase by blast
qed

section \<open>The plan listing\<close>

text \<open>
  C3, as the code has it. The channel table has one row per key (the \<open>UNIQUE\<close>
  constraint, kept by \<open>insert_channel\<close>). When at least one channel is active,
  \<open>show_plans\<close> lists one line (name, price, and the demo link when it is not empty) per
  active channel, in the order of the rows, and then the line of the server premium plan
  when that plan is active. When no channel is active no offer is listed, whether the
  server premium plan is active or not: a buyer who asked by message gets the notice
  that no plans are available, and after a button press nothing is sent.
\<close>

theorem show_plans_lists_channels_then_server_plan:
  assumes "distinct (map c_channel_key (channels (db w)))"
  shows "(filter c_is_active (channels (db w)) = [] \<longrightarrow>
            show_plans e False w = (Inr (), emit (Reply NoPlansAvailable) w)
          \<and> snd (show_plans e True w) = w)
    \<and> (filter c_is_active (channels (db w)) \<noteq> [] \<longrightarrow>
            show_plans e False w
              = (Inr (), emit (ReplyMarkup (PlansText (plans_text (db w)))
                                 (get_plans_keyboard True (db w))) w)
          \<and> show_plans e True w
              = (Inr (), emit (EditMarkup (PlansText (plans_text (db w)))
                                 (get_plans_keyboard True (db w))) w))
    \<and> plans_text (db w) =
         map (\<lambda>ch. ChannelLine (c_channel_name ch) (c_price ch)
                      (if c_demo_link ch \<noteq> [] then Some (c_demo_link ch) else None))
           (filter c_is_active (channels (db w)))
         @ (case active_server_plan (db w) of
              None \<Rightarrow> []
            | Some server_plan \<Rightarrow>
                [ServerLine (sp_plan_name server_plan) (sp_price server_plan)])"
proof -
  let ?active = "filter c_is_active (channels (db w))"
  have dict: "get_channels_from_db (db w) = map (\<lambda>ch. (c_channel_key ch, info_of ch)) ?active"
    using assms by (rule get_channels_from_db_distinct)
  have none: "?active = [] \<longrightarrow>
            show_plans e False w = (Inr (), emit (Reply NoPlansAvailable) w)
          \<and> snd (show_plans e True w) = w"
    by (simp add: show_plans_def dict)
  have some: "?active \<noteq> [] \<longrightarrow>
            show_plans e False w
              = (Inr (), emit (ReplyMarkup (PlansText (plans_text (db w)))
                                 (get_plans_keyboard True (db w))) w)
          \<and> show_plans e True w
              = (Inr (), emit (EditMarkup (PlansText (plans_text (db w)))
                                 (get_plans_keyboard True (db w))) w)"
    by (simp add: show_plans_def dict)
  have lines: "plans_text (db w) =
         map (\<lambda>ch. ChannelLine (c_channel_name ch) (c_price ch)
                      (if c_demo_link ch \<noteq> [] then Some (c_demo_link ch) else None))
           ?active
         @ (case active_server_plan (db w) of
              None \<Rightarrow> []
            | Some server_plan \<Rightarrow>
                [ServerLine (sp_plan_name server_plan) (sp_price server_plan)])"
    by (simp add: plans_text_def dict channel_line_def info_of_def comp_def)
  show ?thesis
    using none some lines by blast
qed

theorem show_plans_lists_channels_then_server_plan_witness:
  "show_plans example_env False shop_world
     = (Inr (), emit (ReplyMarkup (PlansText (plans_text (db shop_world)))
                        (get_plans_keyboard True (db shop_world))) shop_world)
   \<and> plans_text (db shop_world)
     = [ChannelLine ''VIP Content'' (Finite 200) None, ServerLine ''Server Premium'' (Finite 599)]
   \<and> snd (show_plans example_env True fresh_world) = fresh_world"
proof -
  have keys: "distinct (map c_channel_key (channels (db shop_world)))"
    by (simp add: shop_world_def)
  have active: "filter c_is_active (channels (db shop_world)) = [vip_row]"
    by (simp add: shop_world_def vip_row_def)
  have plan: "active_server_plan (db shop_world)
      = Some \<lparr>sp_plan_name = ''Server Premium'', sp_price = Finite 599,
               sp_included_channels = ''[]'', sp_is_active = True, sp_created_date = 0\<rparr>"
    by (simp add: active_server_plan_def shop_world_def setup_database_def empty_database_def)
  have row: "c_channel_name vip_row = ''VIP Content'' \<and> c_price vip_row = Finite 200
      \<and> c_demo_link vip_row = []"
    by (simp add: vip_row_def)
  have keys0: "distinct (map c_channel_key (channels (db fresh_world)))"
    by (simp add: fresh_world_def setup_database_def empty_database_def)
  have active0: "filter c_is_active (channels (db fresh_world)) = []"
    by (simp add: fresh_world_def setup_database_def empty_database_def)
  have listed: "show_plans example_env False shop_world
     = (Inr (), emit (ReplyMarkup (PlansText (plans_text (db shop_world)))
                        (get_plans_keyboard True (db shop_world))) shop_world)
   \<and> plans_text (db shop_world)
     = [ChannelLine ''VIP Content'' (Finite 200) None, ServerLine ''Server Premium'' (Finite 599)]"
    using show_plans_lists_channels_then_server_plan [OF keys, of example_env]
    by (simp add: active plan row)
  have silent: "snd (show_plans example_env True fresh_world) = fresh_world"
    using show_plans_lists_channels_then_server_plan [OF keys0, of example_env] active0
    by blast
  show ?thesis
    using listed silent by blast
qed

text \<open>
  C3 as stated fails in the store of a first start: no channel exists, the server
  premium plan is active, and the listing holds no offer, where the claim has the
  all-access offer in it.
\<close>

theorem show_plans_hides_server_plan_without_channels:
  "channels (db fresh_world) = []
   \<and> active_server_plan (db fresh_world)
       = Some \<lparr>sp_plan_name = ''Server Premium'', sp_price = Finite 599,
                sp_included_channels = ''[]'', sp_is_active = True, sp_created_date = 0\<rparr>
   \<and> show_plans example_env False fresh_world
       = (Inr (), emit (Reply NoPlansAvailable) fresh_world)"
  by (simp add: show_plans_def get_channels_from_db_def active_server_plan_def fresh_world_def
        setup_database_def empty_database_def)

section \<open>The Subscription stored by an approved purchase\<close>

text \<open>
  C4, as the code has it. A checkout of a plan that exists, a proof, and an approval by
  an administrator for the buyer and the plan add exactly one Subscription row: the
  table grows by one, and so does the number of rows of that buyer and plan (it is one
  when there was none before; earlier purchases and approvals of the same plan stay).
  The new row is the last one: it belongs to the buyer and the plan, is active, has
  \<open>payment_confirmed\<close> set, and its end date is the clock reading taken when the term
  is computed plus 30 days. The start date is a later reading of the clock; when the
  two readings are equal, the end date is the start date plus 30 days. The
  PendingPayment made by the checkout carries the proof and ends \<open>approved\<close>.
\<close>

theorem checkout_submit_approve_adds_one_subscription:
  fixes e1 e2 e3 :: env and file_id :: string and ud :: user_data
  assumes offered: "plan_info (db w) plan_key = Some (plan_name, plan_price)"
    and admin: "user_id_of admin_user \<in> set (ADMIN_IDS e3)"
    and uid: "py_int user_id_text = Some (user_id_of buyer_user)"
  defines "w' \<equiv> checkout_submit_approve e1 e2 e3 buyer_user admin_user plan_key file_id
                   user_id_text ud w"
  defines "new \<equiv> last (subscriptions (db w'))"
  shows "length (subscriptions (db w')) = length (subscriptions (db w)) + 1
    \<and> length (subscriptions_of (user_id_of buyer_user) plan_key (db w'))
        = length (subscriptions_of (user_id_of buyer_user) plan_key (db w)) + 1
    \<and> s_user_id new = user_id_of buyer_user
    \<and> s_channel_key new = plan_key
    \<and> s_payment_confirmed new
    \<and> s_is_active new
    \<and> s_end_date new = clock e3 0 + timedelta_days 30
    \<and> (clock e3 1 = clock e3 0 \<longrightarrow> s_end_date new = s_start_date new + timedelta_days 30)
    \<and> last (pending_payments (db w'))
        = \<lparr>p_user_id = user_id_of buyer_user, p_channel_key = plan_key, p_amount = plan_price,
           p_payment_proof = Some file_id, p_timestamp = clock e1 0, p_status = Approved\<rparr>
    \<and> last (trace w') = Reply (PaymentApproved (user_id_of buyer_user) plan_name plan_price
                                  (clock e3 0 + timedelta_days 30))"
proof -
  let ?u = "user_id_of buyer_user"
  note run = checkout_submit_approve_run
      [OF offered admin uid, of e1 e2 file_id ud, folded w'_def]
  have total: "length (subscriptions (db w')) = length (subscriptions (db w)) + 1"
    by (simp add: run(1) approval_store_subscriptions purchase_store_subscriptions)
  have own: "length (subscriptions_of ?u plan_key (db w'))
        = length (subscriptions_of ?u plan_key (db w)) + 1"
    by (simp add: run(1) approval_store_subscriptions purchase_store_subscriptions)
  have row: "new = \<lparr>s_user_id = ?u, s_channel_key = plan_key, s_start_date = clock e3 1,
        s_end_date = clock e3 0 + timedelta_days 30, s_is_active = True,
        s_payment_confirmed = True,
        s_invoice_sent = (\<not> send_message_raises e3 ?u)\<rparr>"
    unfolding new_def by (simp add: run(1) last_subscription_approved)
  have payment: "last (pending_payments (db w'))
        = \<lparr>p_user_id = ?u, p_channel_key = plan_key, p_amount = plan_price,
           p_payment_proof = Some file_id, p_timestamp = clock e1 0, p_status = Approved\<rparr>"
    by (simp add: run(1) approval_store_pending last_pending_approved)
  have fields: "s_user_id new = ?u \<and> s_channel_key new = plan_key \<and> s_payment_confirmed new
      \<and> s_is_active new \<and> s_end_date new = clock e3 0 + timedelta_days 30
      \<and> (clock e3 1 = clock e3 0 \<longrightarrow> s_end_date new = s_start_date new + timedelta_days 30)"
    by (simp add: row)
  show ?thesis
    using total own fields payment run(2) by blast
qed

theorem checkout_submit_approve_adds_one_subscription_witness:
  "length (subscriptions_of 42 ''vip_content''
      (db (checkout_submit_approve example_env example_env example_env buyer admin
             ''vip_content'' ''file-1'' ''42'' empty_session shop_world))) = 1
   \<and> s_payment_confirmed (last (subscriptions
      (db (checkout_submit_approve example_env example_env example_env buyer admin
             ''vip_content'' ''file-1'' ''42'' empty_session shop_world))))
   \<and> s_end_date (last (subscriptions
      (db (checkout_submit_approve example_env example_env example_env buyer admin
             ''vip_content'' ''file-1'' ''42'' empty_session shop_world))))
       = 1000 + timedelta_days 30"
proof -
  have who: "user_id_of buyer = 42"
    by (simp add: buyer_def user_id_of_def)
  have uid: "py_int ''42'' = Some (user_id_of buyer)"
    by (simp add: who example_facts(1))
  have before: "subscriptions_of 42 ''vip_content'' (db shop_world) = []"
    by (simp add: subscriptions_of_def shop_world_def setup_database_def empty_database_def)
  have reading: "clock example_env 0 = 1000"
    by (simp add: example_env_def)
  show ?thesis
    using checkout_submit_approve_adds_one_subscription
            [OF example_facts(4) example_facts(2) uid,
              of example_env example_env "''file-1''" empty_session]
    by (simp add: who before reading)
qed

text \<open>
  C4 as stated fails. With a clock that advances by one microsecond from one reading to
  the next, the Subscription stored by checkout, proof and approval starts at the
  second reading and ends 30 days after the first, so its end date is not its start
  date plus 30 days. When the buyer purchases the same plan again and the purchase is
  approved, two Subscriptions exist for that buyer and plan.
\<close>

theorem subscription_term_and_count_counterexample:
  "s_start_date (last (subscriptions
      (db (checkout_submit_approve example_env example_env example_env buyer admin
             ''vip_content'' ''file-1'' ''42'' empty_session shop_world)))) = 1001
   \<and> s_end_date (last (subscriptions
      (db (checkout_submit_approve example_env example_env example_env buyer admin
             ''vip_content'' ''file-1'' ''42'' empty_session shop_world))))
       = 1000 + timedelta_days 30
   \<and> s_end_date (last (subscriptions
      (db (checkout_submit_approve example_env example_env example_env buyer admin
             ''vip_content'' ''file-1'' ''42'' empty_session shop_world))))
       \<noteq> s_start_date (last (subscriptions
      (db (checkout_submit_approve example_env example_env example_env buyer admin
             ''vip_content'' ''file-1'' ''42'' empty_session shop_world))))
         + timedelta_days 30
   \<and> length (subscriptions_of 42 ''vip_content''
      (db (checkout_submit_approve example_env example_env example_env buyer admin
             ''vip_content'' ''file-2'' ''42'' empty_session
             (checkout_submit_approve example_env example_env example_env buyer admin
                ''vip_content'' ''file-1'' ''42'' empty_session shop_world)))) = 2"
proof -
  let ?w1 = "checkout_submit_approve example_env example_env example_env buyer admin
               ''vip_content'' ''file-1'' ''42'' empty_session shop_world"
  let ?w2 = "checkout_submit_approve example_env example_env example_env buyer admin
               ''vip_content'' ''file-2'' ''42'' empty_session ?w1"
  have who: "user_id_of buyer = 42"
    by (simp add: buyer_def user_id_of_def)
  have uid: "py_int ''42'' = Some (user_id_of buyer)"
    by (simp add: who example_facts(1))
  have quiet: "\<not> send_message_raises example_env 42"
    by (simp add: example_env_def)
  have readings: "clock example_env 0 = 1000" "clock example_env (Suc 0) = 1001"
    by (simp_all add: example_env_def)
  have before: "subscriptions_of 42 ''vip_content'' (db shop_world) = []"
    by (simp add: subscriptions_of_def shop_world_def setup_database_def empty_database_def)
  note first = checkout_submit_approve_run
      [OF example_facts(4) example_facts(2) uid, of example_env example_env "''file-1''"
        empty_session]
  have db1: "db ?w1 = mark_invoice_sent 42 ''vip_content''
      (update_pending_status Approved 42 ''vip_content''
         (insert_subscription 42 ''vip_content'' 1001 (1000 + timedelta_days 30)
            (update_pending_proof ''file-1'' 42 ''vip_content''
               (insert_pending 42 ''vip_content'' (Finite 200) 1000 (db shop_world)))))"
    using first(1) by (simp add: who quiet readings)
  have start: "s_start_date (last (subscriptions (db ?w1))) = 1001"
    by (simp add: db1 last_subscription_approved)
  have finish: "s_end_date (last (subscriptions (db ?w1))) = 1000 + timedelta_days 30"
    by (simp add: db1 last_subscription_approved)
  have differ: "s_end_date (last (subscriptions (db ?w1)))
      \<noteq> s_start_date (last (subscriptions (db ?w1))) + timedelta_days 30"
    by (simp add: start finish)
  have one: "length (subscriptions_of 42 ''vip_content'' (db ?w1)) = 1"
    by (simp add: db1 approval_store_subscriptions purchase_store_subscriptions before)
  have again: "plan_info (db ?w1) ''vip_content'' = Some (''VIP Content'', Finite 200)"
    by (simp add: db1 plan_info_unchanged example_facts(4))
  note second = checkout_submit_approve_run
      [OF again example_facts(2) uid, of example_env example_env "''file-2''" empty_session]
  have "length (subscriptions_of 42 ''vip_content'' (db ?w2)) = 2"
    using second(1)
    by (simp add: who quiet approval_store_subscriptions purchase_store_subscriptions one)
  then show ?thesis
    using start finish differ by blast
qed

section \<open>Outstanding payments of one user and plan\<close>

text \<open>
  C5, as the code has it. A checkout of a plan that exists appends one PendingPayment
  row in status \<open>pending\<close> and records the plan in the session; it does not look at the
  rows that are there. A proof submission that follows turns every \<open>pending\<close> row of the
  user and the plan into \<open>submitted\<close>. So after the two steps no row of the user and the
  plan is \<open>pending\<close>, and the number of \<open>submitted\<close> ones is the number of rows that were
  \<open>submitted\<close> or \<open>pending\<close> before the checkout, plus one: it is one when there was no
  such row before.
\<close>

theorem checkout_and_proof_submission_counts:
  assumes offered: "plan_info (db w) plan_key = Some (plan_name, plan_price)"
    and run1: "initiate_purchase e1 user (''purchase_'' @ plan_key) ud w = (r1, ud1, w1)"
    and attached: "(if photo \<noteq> [] then Some (last photo) else document) = Some file_id"
    and run2: "handle_payment_proof e2 user photo document ud1 w1 = (r2, ud2, w2)"
  shows "pending_payments (db w1) = pending_payments (db w) @
           [\<lparr>p_user_id = user_id_of user, p_channel_key = plan_key, p_amount = plan_price,
             p_payment_proof = None, p_timestamp = clock e1 0, p_status = Pending\<rparr>]
    \<and> awaiting_payment ud1 = Some plan_key
    \<and> payments_in Pending (user_id_of user) plan_key (db w2) = []
    \<and> length (payments_in Submitted (user_id_of user) plan_key (db w2))
        = length (payments_in Submitted (user_id_of user) plan_key (db w))
          + length (payments_in Pending (user_id_of user) plan_key (db w)) + 1
    \<and> awaiting_payment ud2 = None"
proof -
  let ?u = "user_id_of user"
  have first: "ud1 = ud\<lparr>awaiting_payment := Some plan_key\<rparr>"
    and db1: "db w1 = insert_pending ?u plan_key plan_price (clock e1 0) (db w)"
    using run1 initiate_purchase_offered [OF offered, of e1 user ud]
    by (auto simp: emit_def)
  have rows1: "pending_payments (db w1) = pending_payments (db w) @
           [\<lparr>p_user_id = ?u, p_channel_key = plan_key, p_amount = plan_price,
             p_payment_proof = None, p_timestamp = clock e1 0, p_status = Pending\<rparr>]"
    by (simp add: db1 insert_pending_def)
  have marker: "awaiting_payment ud1 = Some plan_key"
    by (simp add: first)
  have offered1: "plan_info (db w1) plan_key = Some (plan_name, plan_price)"
    by (simp add: db1 plan_info_unchanged offered)
  have known: "plan_key = ''server_premium''
      \<or> map_of (get_channels_from_db (db w1)) plan_key \<noteq> None"
    using offered1 by (rule plan_info_known)
  note second = handle_payment_proof_accepted [OF marker known attached, of e2 user]
  have db2: "db w2 = update_pending_proof file_id ?u plan_key (db w1)"
    using second(3) run2 by simp
  have ud2: "awaiting_payment ud2 = None"
    using second(2) run2 by simp
  have none_pending: "payments_in Pending ?u plan_key (db w2) = []"
    by (simp add: db2 update_pending_proof_counts)
  have "length (payments_in Submitted ?u plan_key (db w2))
      = length (payments_in Submitted ?u plan_key (db w1))
        + length (payments_in Pending ?u plan_key (db w1))"
    by (simp add: db2 update_pending_proof_counts)
  then have count: "length (payments_in Submitted ?u plan_key (db w2))
        = length (payments_in Submitted ?u plan_key (db w))
          + length (payments_in Pending ?u plan_key (db w)) + 1"
    by (simp add: db1 insert_pending_counts)
  show ?thesis
    using rows1 marker none_pending count ud2 by blast
qed

theorem checkout_and_proof_submission_counts_witness:
  "payments_in Pending 42 ''vip_content''
     (db (snd (submit example_env buyer ''file-1''
        (checkout example_env buyer ''vip_content'' (empty_session, shop_world))))) = []
   \<and> length (payments_in Submitted 42 ''vip_content''
       (db (snd (submit example_env buyer ''file-1''
          (checkout example_env buyer ''vip_content'' (empty_session, shop_world)))))) = 1"
proof -
  obtain r1 ud1 w1 where run1:
    "initiate_purchase example_env buyer (''purchase_'' @ ''vip_content'') empty_session shop_world
       = (r1, ud1, w1)"
    by (cases "initiate_purchase example_env buyer (''purchase_'' @ ''vip_content'')
                 empty_session shop_world")
  obtain r2 ud2 w2 where run2:
    "handle_payment_proof example_env buyer [''file-1''] None ud1 w1 = (r2, ud2, w2)"
    by (cases "handle_payment_proof example_env buyer [''file-1''] None ud1 w1")
  have attached: "(if [''file-1''] \<noteq> [] then Some (last [''file-1'']) else None) = Some ''file-1''"
    by simp
  have before: "payments_in Submitted 42 ''vip_content'' (db shop_world) = []
      \<and> payments_in Pending 42 ''vip_content'' (db shop_world) = []"
    by (simp add: payments_in_def shop_world_def setup_database_def empty_database_def)
  have who: "user_id_of buyer = 42"
    by (simp add: buyer_def user_id_of_def)
  have composed: "snd (submit example_env buyer ''file-1''
        (checkout example_env buyer ''vip_content'' (empty_session, shop_world))) = w2"
    using run1 run2 by (simp add: submit_def checkout_def)
  show ?thesis
    using checkout_and_proof_submission_counts [OF example_facts(4) run1 attached run2]
    by (simp add: composed who before)
qed

text \<open>
  C5 as stated fails. The buyer presses the purchase button of the same plan twice and
  then sends one photo: both rows become \<open>submitted\<close>.
\<close>

theorem two_checkouts_one_proof_two_submitted:
  "pending_payments (db shop_world) = []
   \<and> length (payments_in Submitted 42 ''vip_content''
       (db (snd (submit example_env buyer ''file-1''
          (checkout example_env buyer ''vip_content''
             (checkout example_env buyer ''vip_content'' (empty_session, shop_world))))))) = 2"
proof -
  let ?s0 = "(empty_session, shop_world)"
  let ?s1 = "checkout example_env buyer ''vip_content'' ?s0"
  let ?s2 = "checkout example_env buyer ''vip_content'' ?s1"
  let ?s3 = "submit example_env buyer ''file-1'' ?s2"
  have who: "user_id_of buyer = 42"
    by (simp add: buyer_def user_id_of_def)
  have empty: "pending_payments (db shop_world) = []"
    by (simp add: shop_world_def setup_database_def empty_database_def)
  have info0: "plan_info (db (snd ?s0)) ''vip_content'' = Some (''VIP Content'', Finite 200)"
    by (simp add: example_facts(4))
  note c1 = checkout_offered [OF info0, of example_env buyer]
  have info1: "plan_info (db (snd ?s1)) ''vip_content'' = Some (''VIP Content'', Finite 200)"
    by (simp add: c1(2) plan_info_unchanged example_facts(4))
  note c2 = checkout_offered [OF info1, of example_env buyer]
  have info2: "plan_info (db (snd ?s2)) ''vip_content'' = Some (''VIP Content'', Finite 200)"
    by (simp add: c2(2) c1(2) plan_info_unchanged example_facts(4))
  have marker: "awaiting_payment (fst ?s2) = Some ''vip_content''"
    by (simp add: c2(1))
  note s3 = submit_accepted [OF marker info2, of example_env buyer "''file-1''"]
  have before: "payments_in Submitted 42 ''vip_content'' (db shop_world) = []
      \<and> payments_in Pending 42 ''vip_content'' (db shop_world) = []"
    by (simp add: payments_in_def empty)
  have pending2: "length (payments_in Pending 42 ''vip_content'' (db (snd ?s2))) = 2"
    by (simp add: c2(2) c1(2) who insert_pending_counts before)
  have submitted2: "length (payments_in Submitted 42 ''vip_content'' (db (snd ?s2))) = 0"
    by (simp add: c2(2) c1(2) who insert_pending_counts before)
  have "length (payments_in Submitted 42 ''vip_content'' (db (snd ?s3))) = 2"
    using pending2 submitted2
    by (simp add: s3(2) who update_pending_proof_counts)
  then show ?thesis
    using empty by blast
qed

section \<open>Saving an onboarded channel\<close>

lemma save_channel_new_key:
  assumes "channel_name ud = Some name" "channel_price ud = Some price"
    and "channel_demo ud = Some demo"
    and "make_channel_key name \<notin> set (map c_channel_key (channels (db w)))"
  shows "save_channel e user channel_id invite_url ud w =
     (Inr END, clear ud,
      emit (Reply (ChannelAdded name channel_id price demo))
        (w\<lparr>db := (db w)\<lparr>channels := channels (db w) @
           [\<lparr>c_channel_key = make_channel_key name, c_channel_name = name,
             c_channel_id = channel_id, c_price = price, c_demo_link = demo,
             c_invite_link = invite_url, c_is_active = True,
             c_created_date = clock e 0, c_created_by = user_id_of user\<rparr>]\<rparr>\<rparr>))"
  using assms by (simp add: save_channel_def insert_channel_def Let_def)

lemma save_channel_existing_key:
  assumes "channel_name ud = Some name" "channel_price ud = Some price"
    and "channel_demo ud = Some demo"
    and "make_channel_key name \<in> set (map c_channel_key (channels (db w)))"
  shows "save_channel e user channel_id invite_url ud w =
     (Inr END, clear ud, emit (Reply (ChannelKeyExists (make_channel_key name))) w)"
  using assms by (simp add: save_channel_def insert_channel_def Let_def)

lemma add_channel_forward_valid:
  assumes "get_chat_member e channel_id = Inr ADMINISTRATOR"
    and "create_chat_invite_link e channel_id = Inr invite_url"
  shows "add_channel_forward e user (Some channel_id) ud w =
     save_channel e user channel_id invite_url ud (emit (CreateChatInviteLink channel_id) w)"
  using assms by (simp add: add_channel_forward_def)

text \<open>
  C6, as the code has it. An onboarding run whose session holds a name, a price and a
  demo link, and which receives a forward from a channel where the bot is
  administrator and an invite link can be made, appends exactly one row to the channel
  table when the key derived from the name is not in the table yet. The key of that
  row is the name in lower case with every space and hyphen replaced by an underscore,
  and it is then the only row with that key. A later run whose name gives the same
  key (the same name, or one that differs from it in case, spaces and hyphens only),
  made in the resulting store, ends with the key-exists message and leaves the store
  as it was.
\<close>

theorem onboarding_creates_one_channel_then_conflicts:
  assumes session1: "channel_name ud = Some name \<and> channel_price ud = Some price
                      \<and> channel_demo ud = Some demo"
    and provider1: "get_chat_member e channel_id = Inr ADMINISTRATOR
                      \<and> create_chat_invite_link e channel_id = Inr invite_url"
    and fresh: "make_channel_key name \<notin> set (map c_channel_key (channels (db w)))"
    and run1: "add_channel_forward e user (Some channel_id) ud w = (r1, ud1, w1)"
    and session2: "channel_name ud2 = Some name2 \<and> channel_price ud2 = Some price2
                      \<and> channel_demo ud2 = Some demo2"
    and same_key: "make_channel_key name2 = make_channel_key name"
    and provider2: "get_chat_member e2 channel_id2 = Inr ADMINISTRATOR
                      \<and> create_chat_invite_link e2 channel_id2 = Inr invite_url2"
    and run2: "add_channel_forward e2 user2 (Some channel_id2) ud2 w1 = (r2, ud2', w2)"
  shows "r1 = Inr END
    \<and> channels (db w1) = channels (db w) @
         [\<lparr>c_channel_key = make_channel_key name, c_channel_name = name,
           c_channel_id = channel_id, c_price = price, c_demo_link = demo,
           c_invite_link = invite_url, c_is_active = True,
           c_created_date = clock e 0, c_created_by = user_id_of user\<rparr>]
    \<and> make_channel_key name =
         map (\<lambda>c. if c = CHR '' '' \<or> c = CHR ''-'' then CHR ''_'' else lower_char c) name
    \<and> length (filter (\<lambda>ch. c_channel_key ch = make_channel_key name) (channels (db w1))) = 1
    \<and> r2 = Inr END
    \<and> db w2 = db w1
    \<and> trace w2 = trace w1 @ [CreateChatInviteLink channel_id2,
                               Reply (ChannelKeyExists (make_channel_key name))]"
proof -
  let ?key = "make_channel_key name"
  let ?row = "\<lparr>c_channel_key = ?key, c_channel_name = name,
           c_channel_id = channel_id, c_price = price, c_demo_link = demo,
           c_invite_link = invite_url, c_is_active = True,
           c_created_date = clock e 0, c_created_by = user_id_of user\<rparr>"
  let ?wa = "emit (CreateChatInviteLink channel_id) w"
  have fresh': "?key \<notin> set (map c_channel_key (channels (db ?wa)))"
    using fresh by (simp add: emit_def)
  have "add_channel_forward e user (Some channel_id) ud w
      = save_channel e user channel_id invite_url ud ?wa"
    using provider1 by (simp add: add_channel_forward_valid)
  also have "\<dots> = (Inr END, clear ud,
      emit (Reply (ChannelAdded name channel_id price demo))
        (?wa\<lparr>db := (db ?wa)\<lparr>channels := channels (db ?wa) @ [?row]\<rparr>\<rparr>))"
    using session1 fresh' by (simp add: save_channel_new_key)
  finally have first: "r1 = Inr END"
    and w1: "w1 = emit (Reply (ChannelAdded name channel_id price demo))
        (?wa\<lparr>db := (db ?wa)\<lparr>channels := channels (db ?wa) @ [?row]\<rparr>\<rparr>)"
    using run1 by simp_all
  have chans: "channels (db w1) = channels (db w) @ [?row]"
    by (simp add: w1 emit_def)
  have none_before: "filter (\<lambda>ch. c_channel_key ch = ?key) (channels (db w)) = []"
    using fresh by (force simp: filter_empty_conv)
  have one: "length (filter (\<lambda>ch. c_channel_key ch = ?key) (channels (db w1))) = 1"
    by (simp add: chans none_before)
  let ?wb = "emit (CreateChatInviteLink channel_id2) w1"
  have present: "?key \<in> set (map c_channel_key (channels (db ?wb)))"
    by (simp add: emit_def chans)
  have "add_channel_forward e2 user2 (Some channel_id2) ud2 w1
      = save_channel e2 user2 channel_id2 invite_url2 ud2 ?wb"
    using provider2 by (simp add: add_channel_forward_valid)
  also have "\<dots> = (Inr END, clear ud2, emit (Reply (ChannelKeyExists ?key)) ?wb)"
  proof -
    have present2: "make_channel_key name2 \<in> set (map c_channel_key (channels (db ?wb)))"
      using present by (simp only: same_key)
    have "save_channel e2 user2 channel_id2 invite_url2 ud2 ?wb
        = (Inr END, clear ud2, emit (Reply (ChannelKeyExists (make_channel_key name2))) ?wb)"
      using session2 present2 by (intro save_channel_existing_key) auto
    then show ?thesis
      by (simp only: same_key)
  qed
  finally have second: "r2 = Inr END"
    and w2: "w2 = emit (Reply (ChannelKeyExists ?key)) ?wb"
    using run2 by simp_all
  have db2: "db w2 = db w1" by (simp add: w2 emit_def)
  have tr2: "trace w2 = trace w1 @ [CreateChatInviteLink channel_id2, Reply (ChannelKeyExists ?key)]"
    by (simp add: w2 emit_def)
  show ?thesis
    using first chans make_channel_key_char [of name] one second db2 tr2 by blast
qed

lemma make_key_vip: "make_channel_key ''VIP Content'' = ''vip_content''"
  by (simp add: make_channel_key_def replace_char_def lower_def lower_char_def)

lemma make_key_hyphen: "make_channel_key ''vip-content'' = ''vip_content''"
  by (simp add: make_channel_key_def replace_char_def lower_def lower_char_def)

theorem onboarding_creates_one_channel_then_conflicts_witness:
  "channels (db (snd (snd (add_channel_forward example_env admin (Some (- 1001)) vip_session
      fresh_world)))) = [vip_row]
   \<and> fst (add_channel_forward example_env admin (Some (- 1002)) hyphen_session
        (shop_world\<lparr>trace := [CreateChatInviteLink (- 1001),
            Reply (ChannelAdded ''VIP Content'' (- 1001) (Finite 200) [])]\<rparr>)) = Inr END
   \<and> db (snd (snd (add_channel_forward example_env admin (Some (- 1002)) hyphen_session
        (shop_world\<lparr>trace := [CreateChatInviteLink (- 1001),
            Reply (ChannelAdded ''VIP Content'' (- 1001) (Finite 200) [])]\<rparr>)))) = db shop_world"
proof -
  let ?w1 = "shop_world\<lparr>trace := [CreateChatInviteLink (- 1001),
            Reply (ChannelAdded ''VIP Content'' (- 1001) (Finite 200) [])]\<rparr>"
  have session: "channel_name vip_session = Some ''VIP Content''
      \<and> channel_price vip_session = Some (Finite 200) \<and> channel_demo vip_session = Some []"
    by (simp add: vip_session_def)
  have provider: "get_chat_member example_env (- 1001) = Inr ADMINISTRATOR
      \<and> create_chat_invite_link example_env (- 1001) = Inr ''https://t.me/+vip''"
    by (simp add: example_env_def)
  have provider2: "get_chat_member example_env (- 1002) = Inr ADMINISTRATOR
      \<and> create_chat_invite_link example_env (- 1002) = Inr ''https://t.me/+vip''"
    by (simp add: example_env_def)
  have fresh: "make_channel_key ''VIP Content''
      \<notin> set (map c_channel_key (channels (db fresh_world)))"
    by (simp add: fresh_world_def setup_database_def empty_database_def)
  have run1: "add_channel_forward example_env admin (Some (- 1001)) vip_session fresh_world
      = (Inr END, clear vip_session, ?w1)"
    by (simp add: add_channel_forward_def save_channel_def insert_channel_def make_key_vip
          example_env_def vip_session_def fresh_world_def shop_world_def vip_row_def admin_def
          user_id_of_def setup_database_def empty_database_def emit_def)
  obtain r2 ud2 w2 where run2:
    "add_channel_forward example_env admin (Some (- 1002)) hyphen_session ?w1 = (r2, ud2, w2)"
    by (cases "add_channel_forward example_env admin (Some (- 1002)) hyphen_session ?w1")
  have session2: "channel_name hyphen_session = Some ''vip-content''
      \<and> channel_price hyphen_session = Some (Finite 150)
      \<and> channel_demo hyphen_session = Some []"
    by (simp add: hyphen_session_def)
  have same_key: "make_channel_key ''vip-content'' = make_channel_key ''VIP Content''"
    by (simp add: make_key_vip make_key_hyphen)
  note main = onboarding_creates_one_channel_then_conflicts
      [OF session provider fresh run1 session2 same_key provider2 run2]
  have "channels (db ?w1) = [vip_row]"
    by (simp add: shop_world_def)
  moreover have "r2 = Inr END" "db w2 = db ?w1"
    using main by blast+
  ultimately show ?thesis
    using run1 run2 by simp
qed


text \<open>
  C6 as stated fails. After "VIP Content" has been onboarded, no channel has the name
  "vip-content"; a first onboarding run with that name, a price of 150 and a valid
  channel forward creates no row: its key is \<open>vip_content\<close> as well, and the run ends
  with the key-exists message.
\<close>

theorem onboarding_new_name_existing_key_creates_no_row:
  "channel_name hyphen_session = Some ''vip-content''
   \<and> channel_price hyphen_session = Some (Finite 150)
   \<and> filter (\<lambda>ch. c_channel_name ch = ''vip-content'') (channels (db shop_world)) = []
   \<and> make_channel_key ''vip-content'' = ''vip_content''
   \<and> add_channel_forward example_env admin (Some (- 1003)) hyphen_session shop_world
       = (Inr END, clear hyphen_session,
          shop_world\<lparr>trace := [CreateChatInviteLink (- 1003),
                               Reply (ChannelKeyExists ''vip_content'')]\<rparr>)"
proof -
  have session: "channel_name hyphen_session = Some ''vip-content''
      \<and> channel_price hyphen_session = Some (Finite 150)"
    by (simp add: hyphen_session_def)
  have unused: "filter (\<lambda>ch. c_channel_name ch = ''vip-content'') (channels (db shop_world)) = []"
    by (simp add: shop_world_def vip_row_def)
  have run: "add_channel_forward example_env admin (Some (- 1003)) hyphen_session shop_world
       = (Inr END, clear hyphen_session,
          shop_world\<lparr>trace := [CreateChatInviteLink (- 1003),
                               Reply (ChannelKeyExists ''vip_content'')]\<rparr>)"
    by (simp add: add_channel_forward_def save_channel_def insert_channel_def make_key_hyphen
          example_env_def hyphen_session_def shop_world_def vip_row_def emit_def Let_def)
  show ?thesis
    using session unused make_key_hyphen run by blast
qed

section \<open>Rejection and the state of the pending payment\<close>

text \<open>
  C7, as the code has it. \<open>reject_payment\<close> never reads the pending payments. Run by
  an administrator with a user id that parses and fits a 64-bit integer, it always
  reports success: it marks \<open>rejected\<close> the pending payments of the user and the plan
  that are \<open>submitted\<close> (there may be none, and then the store stays as it was), stores
  no Subscription, sends the buyer the rejection notice with the words after the plan
  key joined by spaces, or with the default reason when there are none, logs a failure
  of that notice, and answers the administrator that the payment was rejected. With a
  user id that does not fit, the store refuses it: the administrator gets the error,
  nothing is stored and the buyer is sent nothing.
\<close>

theorem reject_payment_never_checks_state:
  fixes reason_words :: "string list" and plan_key :: string and w :: world
  assumes admin: "user_id_of user \<in> set (ADMIN_IDS e)"
    and uid: "py_int a0 = Some user_id"
  defines "w' \<equiv> snd (reject_payment e user (a0 # plan_key # reason_words) w)"
  shows "fst (reject_payment e user (a0 # plan_key # reason_words) w) = Inr ()
    \<and> subscriptions (db w') = subscriptions (db w)
    \<and> (sqlite_integer user_id \<longrightarrow>
          pending_payments (db w')
            = map (\<lambda>p. if p_user_id p = user_id \<and> p_channel_key p = plan_key
                             \<and> p_status p = Submitted
                         then p\<lparr>p_status := Rejected\<rparr> else p)
                (pending_payments (db w))
        \<and> trace w' = trace w
            @ [SendMessage user_id
                 (RejectNotice (if reason_words = [] then ''Payment verification failed''
                                else join_space reason_words))]
            @ (if send_message_raises e user_id then [LogError FailedToNotifyUser] else [])
            @ [Reply (PaymentRejected user_id)]
        \<and> (payments_in Submitted user_id plan_key (db w) = [] \<longrightarrow> db w' = db w))
    \<and> (\<not> sqlite_integer user_id \<longrightarrow>
          db w' = db w
        \<and> trace w' = trace w @ [Reply (ErrorRejecting OverflowError)])"
proof (cases "sqlite_integer user_id")
  case True
  note run = reject_payment_run [OF admin uid True, of plan_key reason_words w]
  have result: "fst (reject_payment e user (a0 # plan_key # reason_words) w) = Inr ()"
    by (simp add: run)
  have dbw: "db w' = update_pending_status Rejected user_id plan_key (db w)"
    by (simp add: w'_def run)
  have subs: "subscriptions (db w') = subscriptions (db w)"
    by (simp add: dbw update_pending_status_def)
  have pend: "pending_payments (db w')
        = map (\<lambda>p. if p_user_id p = user_id \<and> p_channel_key p = plan_key
                         \<and> p_status p = Submitted
                     then p\<lparr>p_status := Rejected\<rparr> else p)
            (pending_payments (db w))"
    by (simp add: dbw update_pending_status_def)
  have tr: "trace w' = trace w
        @ [SendMessage user_id
             (RejectNotice (if reason_words = [] then ''Payment verification failed''
                            else join_space reason_words))]
        @ (if send_message_raises e user_id then [LogError FailedToNotifyUser] else [])
        @ [Reply (PaymentRejected user_id)]"
    by (simp add: w'_def run)
  have same: "payments_in Submitted user_id plan_key (db w) = [] \<longrightarrow> db w' = db w"
    by (simp add: dbw update_pending_status_none_submitted)
  show ?thesis
    using True result subs pend tr same by blast
next
  case False
  note run = reject_payment_overflow [OF admin uid False, of plan_key reason_words w]
  have result: "fst (reject_payment e user (a0 # plan_key # reason_words) w) = Inr ()"
    by (simp add: run)
  have dbw: "db w' = db w"
    by (simp add: w'_def run emit_def)
  have tr: "trace w' = trace w @ [Reply (ErrorRejecting OverflowError)]"
    by (simp add: w'_def run emit_def)
  show ?thesis
    using False result dbw tr by simp
qed

theorem reject_payment_never_checks_state_witness:
  "pending_payments
     (db (snd (reject_payment example_env admin [''42'', ''vip_content'', ''blurry'', ''photo'']
                 review_world)))
     = [submitted_row\<lparr>p_status := Rejected\<rparr>]
   \<and> subscriptions
       (db (snd (reject_payment example_env admin [''42'', ''vip_content'', ''blurry'', ''photo'']
                   review_world))) = []
   \<and> trace (snd (reject_payment example_env admin [''42'', ''vip_content'', ''blurry'', ''photo'']
                   review_world))
       = [SendMessage 42 (RejectNotice ''blurry photo''), Reply (PaymentRejected 42)]"
proof -
  have rows: "pending_payments (db review_world) = [submitted_row]
      \<and> subscriptions (db review_world) = [] \<and> trace review_world = []"
    by (simp add: review_world_def setup_database_def empty_database_def)
  have row: "p_user_id submitted_row = 42 \<and> p_channel_key submitted_row = ''vip_content''
      \<and> p_status submitted_row = Submitted"
    by (simp add: submitted_row_def)
  have quiet: "\<not> send_message_raises example_env 42"
    by (simp add: example_env_def)
  show ?thesis
    using reject_payment_never_checks_state
            [OF example_facts(2) example_facts(1),
              where plan_key = "''vip_content''" and reason_words = "[''blurry'', ''photo'']"
                and w = review_world]
    by (simp add: rows row quiet example_ids(1))
qed

text \<open>
  C7 as stated fails. In a store with no pending payment at all, a rejection for the
  buyer and the channel does not fail: the buyer is sent the rejection notice with the
  default reason and the administrator is told that the payment was rejected.
\<close>

theorem reject_payment_without_submission_succeeds:
  "pending_payments (db shop_world) = []
   \<and> reject_payment example_env admin [''42'', ''vip_content''] shop_world
       = (Inr (),
          shop_world\<lparr>trace := [SendMessage 42 (RejectNotice ''Payment verification failed''),
                               Reply (PaymentRejected 42)]\<rparr>)"
proof -
  have empty: "pending_payments (db shop_world) = []"
    by (simp add: shop_world_def setup_database_def empty_database_def)
  have none: "payments_in Submitted 42 ''vip_content'' (db shop_world) = []"
    by (simp add: payments_in_def empty)
  have quiet: "\<not> send_message_raises example_env 42" "trace shop_world = []"
    by (simp_all add: example_env_def shop_world_def)
  have "reject_payment example_env admin [''42'', ''vip_content''] shop_world
       = (Inr (),
          shop_world\<lparr>trace := [SendMessage 42 (RejectNotice ''Payment verification failed''),
                               Reply (PaymentRejected 42)]\<rparr>)"
    by (simp add: reject_payment_run [OF example_facts(2) example_facts(1) example_ids(1)]
          update_pending_status_none_submitted [OF none] quiet)
  then show ?thesis
    using empty by blast
qed

section \<open>The price step of onboarding\<close>

text \<open>
  C8, as the code has it. In the price step a text re-prompts and keeps the dialogue in
  \<open>CHANNEL_PRICE\<close> exactly when \<open>float\<close> raises \<open>ValueError\<close> on it; then nothing but
  the re-prompt happens. Every text that \<open>float\<close> accepts, whatever the sign of its
  value, records the price and advances to \<open>CHANNEL_DEMO\<close>. A text with no digit that is
  not a spelling of infinity or nan is among those that re-prompt.
\<close>

theorem add_channel_price_advances_iff_float_parses:
  "(fst (add_channel_price e text ud w) = Inr CHANNEL_PRICE \<longleftrightarrow> py_float (strip text) = None)
   \<and> (fst (add_channel_price e text ud w) = Inr CHANNEL_DEMO \<longleftrightarrow> py_float (strip text) \<noteq> None)
   \<and> (py_float (strip text) = None \<longrightarrow>
        add_channel_price e text ud w = (Inr CHANNEL_PRICE, ud, emit (Reply InvalidPriceNumber) w))
   \<and> (\<forall>price. py_float (strip text) = Some price \<longrightarrow>
        add_channel_price e text ud w
          = (Inr CHANNEL_DEMO, ud\<lparr>channel_price := Some price\<rparr>,
             emit (Reply (AddChannelStep3 price)) w))
   \<and> ((\<forall>c \<in> set text. digit_of c = None)
        \<and> lower (snd (sign_split (strip text))) \<notin> {''inf'', ''infinity'', ''nan''} \<longrightarrow>
        fst (add_channel_price e text ud w) = Inr CHANNEL_PRICE)"
proof -
  have parse: "fst (add_channel_price e text ud w) =
      (case py_float (strip text) of Some price \<Rightarrow> Inr CHANNEL_DEMO | None \<Rightarrow> Inr CHANNEL_PRICE)"
    by (simp add: add_channel_price_def split: option.splits)
  have a: "fst (add_channel_price e text ud w) = Inr CHANNEL_PRICE \<longleftrightarrow> py_float (strip text) = None"
    by (simp add: parse split: option.splits)
  have b: "fst (add_channel_price e text ud w) = Inr CHANNEL_DEMO \<longleftrightarrow> py_float (strip text) \<noteq> None"
    by (simp add: parse split: option.splits)
  have c: "py_float (strip text) = None \<longrightarrow>
        add_channel_price e text ud w = (Inr CHANNEL_PRICE, ud, emit (Reply InvalidPriceNumber) w)"
    by (simp add: add_channel_price_def)
  have d: "\<forall>price. py_float (strip text) = Some price \<longrightarrow>
        add_channel_price e text ud w
          = (Inr CHANNEL_DEMO, ud\<lparr>channel_price := Some price\<rparr>,
             emit (Reply (AddChannelStep3 price)) w)"
    by (simp add: add_channel_price_def)
  have f: "(\<forall>c \<in> set text. digit_of c = None)
        \<and> lower (snd (sign_split (strip text))) \<notin> {''inf'', ''infinity'', ''nan''} \<longrightarrow>
        fst (add_channel_price e text ud w) = Inr CHANNEL_PRICE"
    using py_float_no_digit [of "text"] a by blast
  show ?thesis using a b c d f by blast
qed

theorem add_channel_price_advances_iff_float_parses_witness:
  "fst (add_channel_price example_env ''two hundred'' empty_session fresh_world) = Inr CHANNEL_PRICE
   \<and> add_channel_price example_env ''12.50'' empty_session fresh_world
       = (Inr CHANNEL_DEMO, empty_session\<lparr>channel_price := Some (Finite (25 / 2))\<rparr>,
          emit (Reply (AddChannelStep3 (Finite (25 / 2)))) fresh_world)"
proof -
  have nodigit: "\<forall>c \<in> set ''two hundred''. digit_of c = None"
    by (simp add: digit_of_def)
  have noword: "lower (snd (sign_split (strip ''two hundred''))) \<notin> {''inf'', ''infinity'', ''nan''}"
    by (simp add: strip_def is_space_def sign_split_def lower_def)
  have parsed: "py_float (strip ''12.50'') = Some (Finite (25 / 2))"
    by code_simp
  from add_channel_price_advances_iff_float_parses
         [of example_env "''two hundred''" empty_session fresh_world] nodigit noword
  have one: "fst (add_channel_price example_env ''two hundred'' empty_session fresh_world)
      = Inr CHANNEL_PRICE"
    by blast
  from add_channel_price_advances_iff_float_parses
         [of example_env "''12.50''" empty_session fresh_world] parsed
  have two: "add_channel_price example_env ''12.50'' empty_session fresh_world
       = (Inr CHANNEL_DEMO, empty_session\<lparr>channel_price := Some (Finite (25 / 2))\<rparr>,
          emit (Reply (AddChannelStep3 (Finite (25 / 2)))) fresh_world)"
    by blast
  show ?thesis using one two by (rule conjI)
qed

text \<open>
  C8 as stated fails: the texts \<open>0\<close> and \<open>-5\<close> are not positive numbers, and both
  advance the dialogue to \<open>CHANNEL_DEMO\<close> with the price recorded.
\<close>

theorem add_channel_price_accepts_zero_and_negative:
  "py_float (strip ''0'') = Some (Finite 0)
   \<and> add_channel_price example_env ''0'' empty_session fresh_world
       = (Inr CHANNEL_DEMO, empty_session\<lparr>channel_price := Some (Finite 0)\<rparr>,
          emit (Reply (AddChannelStep3 (Finite 0))) fresh_world)
   \<and> py_float (strip ''-5'') = Some (Finite (- 5))
   \<and> add_channel_price example_env ''-5'' empty_session fresh_world
       = (Inr CHANNEL_DEMO, empty_session\<lparr>channel_price := Some (Finite (- 5))\<rparr>,
          emit (Reply (AddChannelStep3 (Finite (- 5)))) fresh_world)"
proof -
  have zero: "py_float (strip ''0'') = Some (Finite 0)"
    by code_simp
  have minus: "py_float (strip ''-5'') = Some (Finite (- 5))"
    by code_simp
  show ?thesis
    by (simp add: add_channel_price_def zero minus)
qed

section \<open>Granting membership for the server premium plan\<close>

text \<open>
  C9. When an administrator approves a server premium purchase (the user id parses
  and fits a 64-bit integer, the plan row is active), the grant call is made for every active channel, in the order of the
  channel rows, whether or not a call raises: each round of the loop is the call,
  followed by a log entry when the call raised. The invoice and the success reply
  follow, and the Subscription is stored. Two or more active channels are the case of
  a list of rows of that length.
\<close>

theorem approve_server_premium_grants_every_channel:
  fixes rest :: "string list"
  assumes admin: "user_id_of user \<in> set (ADMIN_IDS e)"
    and uid: "py_int a0 = Some user_id"
    and fits: "sqlite_integer user_id"
    and plan: "active_server_plan (db w) = Some server_plan"
    and keys: "distinct (map c_channel_key (channels (db w)))"
  defines "w' \<equiv> snd (approve_payment e user (a0 # ''server_premium'' # rest) w)"
  shows "fst (approve_payment e user (a0 # ''server_premium'' # rest) w) = Inr ()
    \<and> trace w' = trace w
        @ concat (map (\<lambda>ch. if unban_raises e (c_channel_id ch) user_id
                             then [UnbanChatMember (c_channel_id ch) user_id,
                                   LogError (FailedToAddUserTo (c_channel_name ch))]
                             else [UnbanChatMember (c_channel_id ch) user_id])
                    (filter c_is_active (channels (db w))))
        @ [SendMessage user_id
             (InvoiceServer (sp_plan_name server_plan) (sp_price server_plan)
                (clock e 2 + timedelta_days 30) (invoice_links (db w)))]
        @ (if send_message_raises e user_id then [LogError (FailedToSendInvoice user_id)] else [])
        @ [Reply (PaymentApproved user_id (sp_plan_name server_plan) (sp_price server_plan)
                    (clock e 0 + timedelta_days 30))]
    \<and> (\<forall>ch \<in> set (channels (db w)). c_is_active ch \<longrightarrow>
          UnbanChatMember (c_channel_id ch) user_id \<in> set (trace w')
        \<and> (unban_raises e (c_channel_id ch) user_id \<longrightarrow>
             LogError (FailedToAddUserTo (c_channel_name ch)) \<in> set (trace w')))
    \<and> length (subscriptions (db w')) = length (subscriptions (db w)) + 1"
proof -
  let ?round = "\<lambda>ch. if unban_raises e (c_channel_id ch) user_id
                      then [UnbanChatMember (c_channel_id ch) user_id,
                            LogError (FailedToAddUserTo (c_channel_name ch))]
                      else [UnbanChatMember (c_channel_id ch) user_id]"
  let ?active = "filter c_is_active (channels (db w))"
  note run = approve_payment_server_premium [OF admin uid fits plan, of rest, folded w'_def]
  have dict: "get_channels_from_db (db w) = map (\<lambda>ch. (c_channel_key ch, info_of ch)) ?active"
    using keys by (rule get_channels_from_db_distinct)
  have rounds: "concat (map (grant_events e user_id) (get_channels_from_db (db w)))
      = concat (map ?round ?active)"
    by (simp add: dict grant_events_def info_of_def comp_def cong: if_cong)
  have tr: "trace w' = trace w @ concat (map ?round ?active)
        @ [SendMessage user_id
             (InvoiceServer (sp_plan_name server_plan) (sp_price server_plan)
                (clock e 2 + timedelta_days 30) (invoice_links (db w)))]
        @ (if send_message_raises e user_id then [LogError (FailedToSendInvoice user_id)] else [])
        @ [Reply (PaymentApproved user_id (sp_plan_name server_plan) (sp_price server_plan)
                    (clock e 0 + timedelta_days 30))]"
    using run(2) by (simp only: rounds)
  have each: "UnbanChatMember (c_channel_id ch) user_id \<in> set (trace w')
        \<and> (unban_raises e (c_channel_id ch) user_id \<longrightarrow>
             LogError (FailedToAddUserTo (c_channel_name ch)) \<in> set (trace w'))"
    if "ch \<in> set (channels (db w))" "c_is_active ch" for ch
  proof -
    have "ch \<in> set ?active" using that by simp
    then have "set (?round ch) \<subseteq> set (concat (map ?round ?active))"
      by auto
    then have "set (?round ch) \<subseteq> set (trace w')"
      unfolding tr by auto
    then show ?thesis
      by (auto split: if_splits)
  qed
  have subs: "length (subscriptions (db w')) = length (subscriptions (db w)) + 1"
    by (simp add: run(3) approval_store_subscriptions)
  show ?thesis
    using run(1) tr each subs by blast
qed

theorem approve_server_premium_grants_every_channel_witness:
  "trace (snd (approve_payment failing_env admin [''42'', ''server_premium''] two_channel_world))
     = [UnbanChatMember (- 1001) 42, LogError (FailedToAddUserTo ''VIP Content''),
        UnbanChatMember (- 1002) 42,
        SendMessage 42
          (InvoiceServer ''Server Premium'' (Finite 599) (clock failing_env 2 + timedelta_days 30)
             [(''VIP Content'', ''https://t.me/+vip''), (''Movies'', ''https://t.me/+movies'')]),
        Reply (PaymentApproved 42 ''Server Premium'' (Finite 599)
                 (clock failing_env 0 + timedelta_days 30))]
   \<and> fst (approve_payment failing_env admin [''42'', ''server_premium''] two_channel_world) = Inr ()"
proof -
  have keys: "distinct (map c_channel_key (channels (db two_channel_world)))"
    by (simp add: two_channel_world_def vip_row_def movies_row_def)
  have rows: "filter c_is_active (channels (db two_channel_world)) = [vip_row, movies_row]"
    by (simp add: two_channel_world_def vip_row_def movies_row_def)
  have links: "invoice_links (db two_channel_world)
      = [(''VIP Content'', ''https://t.me/+vip''), (''Movies'', ''https://t.me/+movies'')]"
    by (simp add: invoice_links_def example_facts info_of_def vip_row_def movies_row_def)
  have env: "unban_raises failing_env (- 1001) 42
      \<and> \<not> unban_raises failing_env (- 1002) 42
      \<and> \<not> send_message_raises failing_env 42"
    by (simp add: failing_env_def example_env_def)
  have fields: "c_channel_id vip_row = - 1001 \<and> c_channel_id movies_row = - 1002
      \<and> c_channel_name vip_row = ''VIP Content''"
    by (simp add: vip_row_def movies_row_def)
  have start: "trace two_channel_world = []"
    by (simp add: two_channel_world_def)
  show ?thesis
    using approve_server_premium_grants_every_channel
            [OF example_facts(3) example_facts(1) example_ids(1) example_facts(8) keys, of "[]"]
    by (simp add: rows links env fields start)
qed

section \<open>Payment proof without a pending plan\<close>

text \<open>
  C10. When a photo or document arrives from a buyer whose session does not hold the key
  \<open>awaiting_payment\<close>, \<open>handle_payment_proof\<close> returns at once: the store (every
  pending payment included), the session and the trace of calls to the gateway are what
  they were, so nothing is written and no message is sent.
\<close>

theorem handle_payment_proof_no_marker:
  "awaiting_payment ud = None \<Longrightarrow>
     handle_payment_proof e user photo document ud w = (Inr (), ud, w)"
  by (simp add: handle_payment_proof_def)

theorem handle_payment_proof_no_marker_witness:
  "awaiting_payment empty_session = None \<and>
   handle_payment_proof example_env buyer [''file-1''] None empty_session fresh_world
     = (Inr (), empty_session, fresh_world)"
proof -
  have h: "awaiting_payment empty_session = None"
    by (simp add: empty_session_def)
  show ?thesis
    using h handle_payment_proof_no_marker [OF h, of example_env buyer "[''file-1'']" None fresh_world]
    by simp
qed

end
